theory Spec2Isabelle
  imports Main "HOL-Library.Word"
begin

unbundle bit_operations_syntax

section \<open>Data model of the coordinator (src/src/p2pool.cpp)\<close>

text \<open>
  The coordinator class \<open>p2pool\<close> keeps a main-chain index (two maps), the latest miner
  data, the pending submit request and the list of found blocks.  Machine integers are
  words of their width, so \<open>+\<close> and \<open>-\<close> wrap around as in the source.  Record fields carry
  a short prefix of their struct (\<open>cm_\<close> for \<open>ChainMain\<close>, \<open>md_\<close> for \<open>MinerData\<close>, ...)
  because several structs of the source share field names.
\<close>

subsection \<open>Constants\<close>

definition BLOCK_HEADERS_REQUIRED :: "64 word" where
  "BLOCK_HEADERS_REQUIRED = 720"

definition SEEDHASH_EPOCH_BLOCKS :: "64 word" where
  "SEEDHASH_EPOCH_BLOCKS = 2048"

definition SEEDHASH_EPOCH_LAG :: "64 word" where
  "SEEDHASH_EPOCH_LAG = 64"

definition HASH_SIZE :: nat where
  "HASH_SIZE = 32"

subsection \<open>Structs\<close>

text \<open>A hash is an array of \<open>HASH_SIZE\<close> bytes.\<close>

type_synonym hash = "8 word list"

text \<open>Modelled from the spec: the struct \<open>hash\<close> is declared outside src; a
  default-constructed hash is all zero bytes and \<open>empty()\<close> tests for that value.\<close>

definition hash_default :: hash where
  "hash_default = replicate HASH_SIZE 0"


text \<open>Modelled from the spec: \<open>difficulty_type\<close> is declared outside src; it is a 128-bit
  unsigned value kept as two 64-bit halves, zero by default, compared as a 128-bit
  number.\<close>

record difficulty_type =
  lo :: "64 word"
  hi :: "64 word"

definition difficulty_default :: difficulty_type where
  "difficulty_default = \<lparr> lo = 0, hi = 0 \<rparr>"

definition difficulty_less :: "difficulty_type \<Rightarrow> difficulty_type \<Rightarrow> bool" where
  "difficulty_less a b = (hi a < hi b \<or> (hi a = hi b \<and> lo a < lo b))"

record ChainMain =
  cm_difficulty :: difficulty_type
  cm_height :: "64 word"
  cm_timestamp :: "64 word"
  cm_reward :: "64 word"
  cm_id :: hash

text \<open>Modelled from the spec: the declaration of \<open>ChainMain\<close> is outside src; a
  default-constructed entry (what \<open>operator[]\<close> of a map inserts for a missing key) has
  every field zero (timestamp and reward are 0 when unknown).\<close>

definition ChainMain_default :: ChainMain where
  "ChainMain_default =
     \<lparr> cm_difficulty = difficulty_default, cm_height = 0, cm_timestamp = 0,
       cm_reward = 0, cm_id = hash_default \<rparr>"

record TxMempoolData =
  tx_id :: hash
  tx_blob_size :: "32 word"
  tx_weight :: "64 word"
  tx_fee :: "64 word"

record MinerData =
  md_major_version :: "8 word"
  md_height :: "64 word"
  md_prev_id :: hash
  md_seed_hash :: hash
  md_difficulty :: difficulty_type
  md_median_weight :: "64 word"
  md_already_generated_coins :: "64 word"
  md_median_timestamp :: "64 word"
  md_tx_backlog :: "TxMempoolData list"
  md_time_received :: int

definition MinerData_default :: MinerData where
  "MinerData_default =
     \<lparr> md_major_version = 0, md_height = 0, md_prev_id = hash_default,
       md_seed_hash = hash_default, md_difficulty = difficulty_default,
       md_median_weight = 0, md_already_generated_coins = 0, md_median_timestamp = 0,
       md_tx_backlog = [], md_time_received = 0 \<rparr>"

record SubmitBlockData =
  sb_template_id :: "32 word"
  sb_nonce :: "32 word"
  sb_extra_nonce :: "32 word"
  sb_blob :: "8 word list"

record FoundBlock =
  fb_timestamp :: int
  fb_height :: "64 word"
  fb_id :: hash
  fb_block_diff :: difficulty_type
  fb_total_hashes :: difficulty_type

subsection \<open>The ordered map by height\<close>

text \<open>
  \<open>m_mainchainByHeight\<close> is a \<open>std::map<uint64_t, ChainMain>\<close>: its entries are kept as a
  list in strictly ascending order of the key, the order in which the source iterates.
  \<open>m_mainchainByHash\<close> is only looked up by key and is a partial function.
\<close>

type_synonym by_height = "(64 word \<times> ChainMain) list"
type_synonym by_hash = "hash \<rightharpoonup> ChainMain"

definition ordered :: "by_height \<Rightarrow> bool" where
  "ordered m = sorted_wrt (<) (map fst m)"

definition find_height :: "by_height \<Rightarrow> 64 word \<Rightarrow> ChainMain option" where
  "find_height m k = map_of m k"


text \<open>\<open>m[k]\<close> on the map by hash, read only: inserts a default entry for a missing key.\<close>

definition hash_index :: "by_hash \<Rightarrow> hash \<Rightarrow> ChainMain \<times> by_hash" where
  "hash_index m k =
     (case m k of
        Some v \<Rightarrow> (v, m)
      | None \<Rightarrow> (ChainMain_default, m(k \<mapsto> ChainMain_default)))"

subsection \<open>Seed height\<close>

definition get_seed_height :: "64 word \<Rightarrow> 64 word" where
  "get_seed_height height =
     (if height > SEEDHASH_EPOCH_LAG
      then (height - SEEDHASH_EPOCH_LAG - 1) AND NOT (SEEDHASH_EPOCH_BLOCKS - 1)
      else 0)"

subsection \<open>Collaborators and the coordinator's state\<close>

text \<open>
  The telemetry API object, when there is one, records every snapshot handed to
  \<open>p2pool_api::set\<close> (category, file name, content).  The content is kept as the values
  the source streams into the JSON text.
\<close>

datatype Category = GLOBAL | NETWORK | POOL | LOCAL

record stats_mod =
  sm_stratum_port :: int
  sm_network_height :: "64 word"
  sm_last_block_found_time :: int
  sm_last_block_found_hash :: hash
  sm_last_block_found_height :: "64 word"
  sm_miners :: "64 word"
  sm_hashrate :: "64 word"
  sm_round_hashes :: "64 word"

record pool_stats =
  ps_hashrate :: "64 word"
  ps_miners :: "64 word"
  ps_total_hashes :: difficulty_type
  ps_last_block_found_time :: int
  ps_last_block_found_height :: "64 word"
  ps_total_blocks_found :: nat

datatype api_data =
    network_stats ChainMain
  | pool_stats_data pool_stats
  | pool_blocks "FoundBlock list"
  | global_stats_mod stats_mod

type_synonym p2pool_api = "(Category \<times> string \<times> api_data) list"

text \<open>Calls into collaborators whose code is outside src (mempool, hasher, block
  template, stratum server, side chain, the JSON-RPC client, the event loop) are appended
  to a log, in the order the source makes them.\<close>

datatype call =
    Mempool_add TxMempoolData
  | Mempool_swap "TxMempoolData list"
  | Hasher_set_seed_async hash
  | BlockTemplate_update MinerData
  | StratumServer_on_block
  | SideChain_watch_mainchain_block ChainMain hash
  | clear_crypto_cache
  | uv_async_send_blockTemplateAsync
  | uv_async_send_submitBlockAsync
  | JSONRPC_get_block_header_by_height "64 word"
  | JSONRPC_request string

text \<open>The found-blocks file as the stream extractions of the source see it: the
  whitespace-separated fields in order, and whether whitespace follows the last one.\<close>

record blocks_file =
  bf_fields :: "string list"
  bf_trailing_space :: bool

record p2pool =
  m_api :: "p2pool_api option"
  m_mainchainByHeight :: by_height
  m_mainchainByHash :: by_hash
  m_minerData :: MinerData
  m_updateSeed :: bool
  m_submitBlockData :: SubmitBlockData
  m_foundBlocks :: "FoundBlock list"
  m_zmqLastActive :: int
  m_serversStarted :: bool
  m_stratumServer :: bool
  m_p2pServer :: bool
  FOUND_BLOCKS_FILE :: "blocks_file option"
  calls :: "call list"

text \<open>What a handler reads from outside the coordinator while it runs: the clock, the
  thread it runs on, the side chain's and the P2P server's counters, the block template
  store, whether the found-blocks file can be opened for appending, the text
  conversions of the stream operators that are defined outside src, and the function
  \<open>udiv128\<close> and the constant \<open>DEFAULT_STRATUM_PORT\<close>, both declared outside src.\<close>

record env =
  now :: int
  is_main_thread :: bool
  sidechain_total_hashes :: difficulty_type
  sidechain_difficulty :: difficulty_type
  sidechain_block_time :: "64 word"
  sidechain_miner_count :: "64 word"
  sidechain_has_block :: "hash \<Rightarrow> bool"
  p2p_peer_list_size :: "64 word"
  udiv128 :: "64 word \<Rightarrow> 64 word \<Rightarrow> 64 word \<Rightarrow> 64 word"
  DEFAULT_STRATUM_PORT :: int
  get_block_template_blob :: "32 word \<Rightarrow> 8 word list \<times> 64 word \<times> 64 word"
  file_appendable :: bool
  show_time :: "int \<Rightarrow> string"
  show_u64 :: "64 word \<Rightarrow> string"
  show_hash :: "hash \<Rightarrow> string"
  show_difficulty :: "difficulty_type \<Rightarrow> string"
  read_time :: "string \<Rightarrow> int option"
  read_u64 :: "string \<Rightarrow> 64 word option"
  read_hash :: "string \<Rightarrow> hash option"
  read_difficulty :: "string \<Rightarrow> difficulty_type option"

text \<open>The constructor: \<open>m_submitBlockData{}\<close> is value-initialised, the maps and the
  list of found blocks are empty, \<open>m_api\<close> is null exactly when no API path is
  configured.\<close>

definition p2pool_init :: "bool \<Rightarrow> blocks_file option \<Rightarrow> p2pool" where
  "p2pool_init api_path_configured file =
     \<lparr> m_api = (if api_path_configured then Some [] else None),
       m_mainchainByHeight = [],
       m_mainchainByHash = Map.empty,
       m_minerData = MinerData_default,
       m_updateSeed = True,
       m_submitBlockData = \<lparr> sb_template_id = 0, sb_nonce = 0, sb_extra_nonce = 0, sb_blob = [] \<rparr>,
       m_foundBlocks = [],
       m_zmqLastActive = 0,
       m_serversStarted = False,
       m_stratumServer = False,
       m_p2pServer = False,
       FOUND_BLOCKS_FILE = file,
       calls = [] \<rparr>"

definition api_set :: "Category \<Rightarrow> string \<Rightarrow> api_data \<Rightarrow> p2pool \<Rightarrow> p2pool" where
  "api_set c name d st = st\<lparr> m_api := map_option (\<lambda>a. a @ [(c, name, d)]) (m_api st) \<rparr>"

definition do_call :: "call \<Rightarrow> p2pool \<Rightarrow> p2pool" where
  "do_call c st = st\<lparr> calls := calls st @ [c] \<rparr>"

subsection \<open>Transactions\<close>

text \<open>\<open>TEST_MEMPOOL_PICKING_ALGORITHM\<close> is off, as in production builds.\<close>

definition handle_tx :: "env \<Rightarrow> TxMempoolData \<Rightarrow> p2pool \<Rightarrow> p2pool" where
  "handle_tx e tx st =
     (if tx_weight tx = 0 \<or> tx_fee tx = 0 then st
      else (do_call (Mempool_add tx) st)\<lparr> m_zmqLastActive := now e \<rparr>)"

subsection \<open>Submit requests\<close>

definition submit_block_async :: "32 word \<Rightarrow> 32 word \<Rightarrow> 32 word \<Rightarrow> p2pool \<Rightarrow> p2pool" where
  "submit_block_async template_id nonce extra_nonce st =
     do_call uv_async_send_submitBlockAsync
       (st\<lparr> m_submitBlockData :=
              \<lparr> sb_template_id = template_id, sb_nonce = nonce,
                sb_extra_nonce = extra_nonce, sb_blob = [] \<rparr> \<rparr>)"

definition submit_block_async_blob :: "8 word list \<Rightarrow> p2pool \<Rightarrow> p2pool" where
  "submit_block_async_blob blob st =
     do_call uv_async_send_submitBlockAsync
       (st\<lparr> m_submitBlockData :=
              \<lparr> sb_template_id = 0, sb_nonce = 0, sb_extra_nonce = 0, sb_blob = blob \<rparr> \<rparr>)"

text \<open>The states the pending-submit record can be in: the constructor's, and those
  after either entry point.\<close>

inductive reachable_submit :: "SubmitBlockData \<Rightarrow> bool" where
  init: "reachable_submit (m_submitBlockData (p2pool_init a f))"
| internal: "reachable_submit (m_submitBlockData st) \<Longrightarrow>
     reachable_submit (m_submitBlockData (submit_block_async t n x st))"
| external: "reachable_submit (m_submitBlockData st) \<Longrightarrow>
     reachable_submit (m_submitBlockData (submit_block_async_blob b st))"

subsection \<open>Pruning the index\<close>

text \<open>The loop of \<open>cleanup_mainchain_data\<close>: the iterator walks the map by height in
  ascending order and stops at the first key \<open>h\<close> with \<open>h + PRUNE_DISTANCE >= height\<close>
  (64-bit addition).\<close>

fun cleanup_loop :: "64 word \<Rightarrow> 64 word list \<Rightarrow> by_height \<Rightarrow> by_hash \<Rightarrow> by_height \<times> by_hash" where
  "cleanup_loop height seed_heights [] bh = ([], bh)"
| "cleanup_loop height seed_heights ((h, c) # rest) bh =
     (if h + BLOCK_HEADERS_REQUIRED \<ge> height then ((h, c) # rest, bh)
      else if h \<notin> set seed_heights
      then cleanup_loop height seed_heights rest (bh(cm_id c := None))
      else (let r = cleanup_loop height seed_heights rest bh
            in ((h, c) # fst r, snd r)))"

definition seed_heights_of :: "64 word \<Rightarrow> 64 word list" where
  "seed_heights_of height =
     (let seed_height = get_seed_height height
      in [seed_height, seed_height - SEEDHASH_EPOCH_BLOCKS,
          seed_height - SEEDHASH_EPOCH_BLOCKS * 2])"

definition cleanup_mainchain_data :: "64 word \<Rightarrow> p2pool \<Rightarrow> p2pool" where
  "cleanup_mainchain_data height st =
     (let r = cleanup_loop height (seed_heights_of height)
                (m_mainchainByHeight st) (m_mainchainByHash st)
      in st\<lparr> m_mainchainByHeight := fst r, m_mainchainByHash := snd r \<rparr>)"

subsection \<open>Median timestamp\<close>

text \<open>
  \<open>TIMESTAMP_WINDOW\<close> is declared outside src and is a parameter \<open>W\<close> here.  The loop of
  \<open>get_timestamps\<close> walks the map backwards from \<open>end()\<close>; its list argument holds the
  entries in that (descending) order.
\<close>

fun get_timestamps_loop :: "nat \<Rightarrow> nat \<Rightarrow> by_height \<Rightarrow> 64 word list \<Rightarrow> 64 word list" where
  "get_timestamps_loop W i [] timestamps = timestamps"
| "get_timestamps_loop W i (e # before) timestamps =
     (if i < W
      then get_timestamps_loop W (Suc i) before (timestamps[i := cm_timestamp (snd e)])
      else timestamps)"

definition get_timestamps :: "nat \<Rightarrow> by_height \<Rightarrow> 64 word list \<Rightarrow> 64 word list option" where
  "get_timestamps W m timestamps =
     (if length m \<le> W then None
      else Some (get_timestamps_loop W 0 (rev m) timestamps))"

text \<open>The local array \<open>timestamps\<close> has \<open>W\<close> cells; the model starts it as zeros (the
  source leaves it uninitialised; every cell is written when \<open>get_timestamps\<close> succeeds).
  Reading cell \<open>W / 2 + 1\<close> of an array of \<open>W\<close> cells is out of range for \<open>W \<le> 2\<close>:
  the result is \<open>None\<close> then.\<close>

definition update_median_timestamp :: "nat \<Rightarrow> p2pool \<Rightarrow> p2pool option" where
  "update_median_timestamp W st =
     (case get_timestamps W (m_mainchainByHeight st) (replicate W 0) of
        None \<Rightarrow> Some (st\<lparr> m_minerData := (m_minerData st)\<lparr> md_median_timestamp := 0 \<rparr> \<rparr>)
      | Some timestamps \<Rightarrow>
          (let a = sort timestamps
           in if W div 2 + 1 < W
              then Some (st\<lparr> m_minerData := (m_minerData st)
                          \<lparr> md_median_timestamp := (a ! (W div 2) + a ! (W div 2 + 1)) div 2 \<rparr> \<rparr>)
              else None))"

subsection \<open>Telemetry\<close>

definition last_or :: "'b \<Rightarrow> (FoundBlock \<Rightarrow> 'b) \<Rightarrow> FoundBlock list \<Rightarrow> 'b" where
  "last_or d f bs = (if bs = [] then d else f (last bs))"

definition miners_of :: "env \<Rightarrow> p2pool \<Rightarrow> 64 word" where
  "miners_of e st =
     max (sidechain_miner_count e) (if m_p2pServer st then p2p_peer_list_size e else 0)"

definition hashrate_of :: "env \<Rightarrow> 64 word" where
  "hashrate_of e =
     udiv128 e (hi (sidechain_difficulty e)) (lo (sidechain_difficulty e)) (sidechain_block_time e)"

definition api_update_stats_mod :: "env \<Rightarrow> p2pool \<Rightarrow> p2pool" where
  "api_update_stats_mod e st =
     (if m_api st = None then st
      else
        let tip = hash_index (m_mainchainByHash st) (md_prev_id (m_minerData st));
            mainnet_tip = fst tip;
            st1 = st\<lparr> m_mainchainByHash := snd tip \<rparr>;
            last_block_found_time = last_or 0 fb_timestamp (m_foundBlocks st);
            last_block_found_height = last_or 0 fb_height (m_foundBlocks st);
            last_block_found_hash = last_or hash_default fb_id (m_foundBlocks st);
            last_block_total_hashes = last_or difficulty_default fb_total_hashes (m_foundBlocks st);
            miners = miners_of e st;
            hashrate = hashrate_of e;
            total_hashes = sidechain_total_hashes e
        in if difficulty_less total_hashes last_block_total_hashes then st1
           else
             let round_hashes = lo total_hashes - lo last_block_total_hashes
             in api_set GLOBAL ''stats_mod''
                  (global_stats_mod
                     \<lparr> sm_stratum_port = DEFAULT_STRATUM_PORT e,
                       sm_network_height = cm_height mainnet_tip,
                       sm_last_block_found_time = last_block_found_time,
                       sm_last_block_found_hash = last_block_found_hash,
                       sm_last_block_found_height = last_block_found_height,
                       sm_miners = miners,
                       sm_hashrate = hashrate,
                       sm_round_hashes = round_hashes \<rparr>)
                  st1)"



subsection \<open>Found blocks\<close>

definition get_difficulty_at_height :: "p2pool \<Rightarrow> 64 word \<Rightarrow> difficulty_type option" where
  "get_difficulty_at_height st height =
     map_option cm_difficulty (find_height (m_mainchainByHeight st) height)"

text \<open>Opening the file with \<open>std::ios::app\<close> and streaming one line of five fields
  into it: the first field joins the last one of the file when no whitespace separates
  them; the line ends with a newline.\<close>

definition append_line :: "string list \<Rightarrow> blocks_file option \<Rightarrow> blocks_file" where
  "append_line ln file =
     (case file of
        None \<Rightarrow> \<lparr> bf_fields = ln, bf_trailing_space = True \<rparr>
      | Some f \<Rightarrow>
          if bf_trailing_space f \<or> bf_fields f = []
          then \<lparr> bf_fields = bf_fields f @ ln, bf_trailing_space = True \<rparr>
          else \<lparr> bf_fields = butlast (bf_fields f) @ [last (bf_fields f) @ hd ln] @ tl ln,
                 bf_trailing_space = True \<rparr>)"

definition api_update_block_found :: "env \<Rightarrow> ChainMain option \<Rightarrow> p2pool \<Rightarrow> p2pool" where
  "api_update_block_found e data st0 =
     (let st = do_call clear_crypto_cache st0
      in if m_api st = None then st
         else
           let cur_time = now e;
               total_hashes = sidechain_total_hashes e;
               found = (case data of
                          None \<Rightarrow> None
                        | Some d \<Rightarrow> get_difficulty_at_height st (cm_height d));
               diff = (case found of None \<Rightarrow> difficulty_default | Some df \<Rightarrow> df);
               st1 = (case (data, found) of
                        (Some d, Some df) \<Rightarrow>
                          if file_appendable e
                          then st\<lparr> FOUND_BLOCKS_FILE := Some (append_line
                                 [show_time e cur_time, show_u64 e (cm_height d), show_hash e (cm_id d),
                                  show_difficulty e df, show_difficulty e total_hashes]
                                 (FOUND_BLOCKS_FILE st)) \<rparr>
                          else st
                      | _ \<Rightarrow> st);
               st2 = (case data of
                        None \<Rightarrow> st1
                      | Some d \<Rightarrow> st1\<lparr> m_foundBlocks := m_foundBlocks st1 @
                          [\<lparr> fb_timestamp = cur_time, fb_height = cm_height d, fb_id = cm_id d,
                             fb_block_diff = diff, fb_total_hashes = total_hashes \<rparr>] \<rparr>);
               found_blocks = drop (length (m_foundBlocks st2) - min (length (m_foundBlocks st2)) 51)
                                (m_foundBlocks st2)
           in api_update_stats_mod e
                (api_set POOL ''blocks'' (pool_blocks (rev found_blocks)) st2))"

text \<open>The loop of \<open>load_found_blocks\<close>.  An extraction that reaches the end of the file
  sets \<open>eof\<close>: after reading a last field that no whitespace follows, or when there is
  no field left.  A field that does not convert puts the stream in the failed state
  without \<open>eof\<close>; no later extraction then succeeds and \<open>while (!f.eof())\<close> does not
  end: the result is \<open>None\<close>.\<close>

fun read_found_blocks :: "env \<Rightarrow> bool \<Rightarrow> string list \<Rightarrow> FoundBlock list \<Rightarrow> FoundBlock list option" where
  "read_found_blocks e ws (t1 # t2 # t3 # t4 # t5 # rest) acc =
     (case read_time e t1 of None \<Rightarrow> None | Some timestamp \<Rightarrow>
     (case read_u64 e t2 of None \<Rightarrow> None | Some height \<Rightarrow>
     (case read_hash e t3 of None \<Rightarrow> None | Some id' \<Rightarrow>
     (case read_difficulty e t4 of None \<Rightarrow> None | Some block_difficulty \<Rightarrow>
     (case read_difficulty e t5 of None \<Rightarrow> None | Some cumulative_difficulty \<Rightarrow>
        (let acc' = acc @ [\<lparr> fb_timestamp = timestamp, fb_height = height, fb_id = id',
                             fb_block_diff = block_difficulty,
                             fb_total_hashes = cumulative_difficulty \<rparr>]
         in if rest = [] \<and> \<not> ws then Some acc' else read_found_blocks e ws rest acc'))))))"
| "read_found_blocks e ws [t1, t2, t3, t4] acc =
     (case read_time e t1 of None \<Rightarrow> None | Some timestamp \<Rightarrow>
     (case read_u64 e t2 of None \<Rightarrow> None | Some height \<Rightarrow>
     (case read_hash e t3 of None \<Rightarrow> None | Some id' \<Rightarrow>
     (case read_difficulty e t4 of None \<Rightarrow> None | Some block_difficulty \<Rightarrow>
        (if \<not> ws then Some acc
         else Some (acc @ [\<lparr> fb_timestamp = timestamp, fb_height = height, fb_id = id',
                              fb_block_diff = block_difficulty,
                              fb_total_hashes = difficulty_default \<rparr>]))))))"
| "read_found_blocks e ws [t1, t2, t3] acc =
     (case read_time e t1 of None \<Rightarrow> None | Some timestamp \<Rightarrow>
     (case read_u64 e t2 of None \<Rightarrow> None | Some height \<Rightarrow>
     (case read_hash e t3 of None \<Rightarrow> None | Some id' \<Rightarrow> Some acc)))"
| "read_found_blocks e ws [t1, t2] acc =
     (case read_time e t1 of None \<Rightarrow> None | Some timestamp \<Rightarrow>
     (case read_u64 e t2 of None \<Rightarrow> None | Some height \<Rightarrow> Some acc))"
| "read_found_blocks e ws [t1] acc =
     (case read_time e t1 of None \<Rightarrow> None | Some timestamp \<Rightarrow> Some acc)"
| "read_found_blocks e ws [] acc = Some acc"

definition load_found_blocks :: "env \<Rightarrow> p2pool \<Rightarrow> p2pool option" where
  "load_found_blocks e st =
     (if m_api st = None then Some st
      else
        case FOUND_BLOCKS_FILE st of
          None \<Rightarrow> Some st
        | Some f \<Rightarrow>
            (case read_found_blocks e (bf_trailing_space f) (bf_fields f) (m_foundBlocks st) of
               None \<Rightarrow> None
             | Some blocks \<Rightarrow> Some (api_update_block_found e None (st\<lparr> m_foundBlocks := blocks \<rparr>))))"

subsection \<open>Template update\<close>



subsection \<open>New miner data\<close>






subsection \<open>Hexadecimal text\<close>

text \<open>Modelled from the spec: \<open>from_hex\<close> is defined outside src; it gives the value of
  one hexadecimal digit and fails on any other character.\<close>

definition from_hex :: "char \<Rightarrow> 8 word option" where
  "from_hex c =
     (let n = (of_char c :: nat)
      in if 48 \<le> n \<and> n \<le> 57 then Some (of_nat (n - 48))
         else if 97 \<le> n \<and> n \<le> 102 then Some (of_nat (n - 87))
         else if 65 \<le> n \<and> n \<le> 70 then Some (of_nat (n - 55))
         else None)"

text \<open>Decoding a hexadecimal text two digits at a time, high digit first.\<close>

fun hex_decode :: "string \<Rightarrow> 8 word list option" where
  "hex_decode [] = Some []"
| "hex_decode [c] = None"
| "hex_decode (c1 # c2 # cs) =
     (case from_hex c1 of
        None \<Rightarrow> None
      | Some d0 \<Rightarrow>
          (case from_hex c2 of
             None \<Rightarrow> None
           | Some d1 \<Rightarrow>
               (case hex_decode cs of
                  None \<Rightarrow> None
                | Some bs \<Rightarrow> Some ((push_bit 4 d0 OR d1) # bs))))"

text \<open>\<open>snprintf(buf, sizeof(buf), "%02x", b)\<close> for a value below 256.\<close>

definition hex_digit :: "nat \<Rightarrow> char" where
  "hex_digit n = ''0123456789abcdef'' ! (n mod 16)"

definition printf_02x :: "8 word \<Rightarrow> string" where
  "printf_02x b = [hex_digit (unat b div 16), hex_digit (unat b mod 16)]"

subsection \<open>New main-chain block\<close>




subsection \<open>Block headers from the daemon\<close>

text \<open>
  The JSON layer (rapidjson and \<open>parseValue\<close>) is outside src.  A reply is given by what
  the checks of the source find in it: whether the document parses to an object, whether
  \<open>result\<close> and \<open>block_header\<close> (or \<open>headers\<close>) are there with the right kind, and for
  each field of a header the value \<open>parseValue\<close> yields, or \<open>None\<close> when it fails.
\<close>

record header_json =
  hj_difficulty :: "64 word option"
  hj_difficulty_top64 :: "64 word option"
  hj_height :: "64 word option"
  hj_timestamp :: "64 word option"
  hj_reward :: "64 word option"
  hj_hash :: "hash option"

datatype header_reply =
    header_invalid_json
  | header_no_result
  | header_no_block_header
  | header_object header_json

datatype headers_element = element_not_object | element_object header_json

datatype headers_reply =
    headers_invalid_json
  | headers_no_result
  | headers_no_array
  | headers_array "headers_element list"






subsection \<open>Submitting a block\<close>

definition request_prefix :: string where
  \<open>request_prefix = ''{"jsonrpc":"2.0","id":"0","method":"submit_block","params":["''\<close>

definition request_suffix :: string where
  \<open>request_suffix = ''"]}''\<close>

text \<open>The loop that renders the blob: \<open>i\<close> is the index of the next byte, the list
  holds the bytes from \<open>i\<close> on, and the two nonces are shifted right by 8 bits each time
  a byte of theirs is written.  Offsets are \<open>size_t\<close> values and
  \<open>nonce_offset + sizeof(nonce)\<close> is a 64-bit addition.\<close>

fun submit_block_hex ::
  "64 word \<Rightarrow> 64 word \<Rightarrow> nat \<Rightarrow> 32 word \<Rightarrow> 32 word \<Rightarrow> 8 word list \<Rightarrow> string" where
  "submit_block_hex nonce_offset extra_nonce_offset i nonce extra_nonce [] = []"
| "submit_block_hex nonce_offset extra_nonce_offset i nonce extra_nonce (b # blob) =
     (if nonce_offset \<noteq> 0 \<and> unat nonce_offset \<le> i \<and> i < unat (nonce_offset + 4)
      then printf_02x (ucast (nonce AND 255))
           @ submit_block_hex nonce_offset extra_nonce_offset (Suc i) (drop_bit 8 nonce) extra_nonce blob
      else if extra_nonce_offset \<noteq> 0 \<and> unat extra_nonce_offset \<le> i
              \<and> i < unat (extra_nonce_offset + 4)
      then printf_02x (ucast (extra_nonce AND 255))
           @ submit_block_hex nonce_offset extra_nonce_offset (Suc i) nonce (drop_bit 8 extra_nonce) blob
      else printf_02x b
           @ submit_block_hex nonce_offset extra_nonce_offset (Suc i) nonce extra_nonce blob)"

definition submit_block_request :: "64 word \<Rightarrow> 64 word \<Rightarrow> SubmitBlockData \<Rightarrow> string" where
  "submit_block_request nonce_offset extra_nonce_offset submit_data =
     request_prefix
     @ submit_block_hex nonce_offset extra_nonce_offset 0
         (sb_nonce submit_data) (sb_extra_nonce submit_data) (sb_blob submit_data)
     @ request_suffix"

definition submit_block :: "env \<Rightarrow> p2pool \<Rightarrow> p2pool" where
  "submit_block e st =
     (let submit_data = m_submitBlockData st
      in if sb_blob submit_data = []
         then (let t = get_block_template_blob e (sb_template_id submit_data);
                   blob = fst t;
                   nonce_offset = fst (snd t);
                   extra_nonce_offset = snd (snd t)
               in if blob = [] then st
                  else do_call (JSONRPC_request
                         (submit_block_request nonce_offset extra_nonce_offset
                            (submit_data\<lparr> sb_blob := blob \<rparr>))) st)
         else do_call (JSONRPC_request (submit_block_request 0 0 submit_data)) st)"

text \<open>The statement of the splice in the specification's words: the little-endian
  encoding of a 32-bit value, and a blob with the bytes from position \<open>X\<close> on replaced by
  given bytes (positions beyond the end of the blob do not exist and are not written).\<close>

definition le32 :: "32 word \<Rightarrow> 8 word list" where
  "le32 n = [ucast n, ucast (drop_bit 8 n), ucast (drop_bit 16 n), ucast (drop_bit 24 n)]"

fun replace_bytes :: "8 word list \<Rightarrow> nat \<Rightarrow> 8 word list \<Rightarrow> 8 word list" where
  "replace_bytes blob X [] = blob"
| "replace_bytes blob X (b # bs) = replace_bytes (blob[X := b]) (Suc X) bs"

subsection \<open>A concrete environment and index for the examples\<close>

definition example_hash :: "8 word \<Rightarrow> hash" where
  "example_hash b = hash_default[0 := b]"

definition example_env :: env where
  "example_env =
     \<lparr> now = 1700000000, is_main_thread = True,
       sidechain_total_hashes = \<lparr> lo = 5000, hi = 0 \<rparr>,
       sidechain_difficulty = \<lparr> lo = 1000, hi = 0 \<rparr>,
       sidechain_block_time = 10, sidechain_miner_count = 3,
       sidechain_has_block = (\<lambda>h. False), p2p_peer_list_size = 2,
       udiv128 = (\<lambda>h l d. l div d), DEFAULT_STRATUM_PORT = 3333,
       get_block_template_blob = (\<lambda>t. if t = 7 then ([0, 1, 2, 3, 4, 5, 6, 7, 8, 9, 10, 11], 1, 6)
                                        else ([], 0, 0)),
       file_appendable = True,
       show_time = (\<lambda>t. ''time''), show_u64 = (\<lambda>t. ''height''), show_hash = (\<lambda>t. ''hash''),
       show_difficulty = (\<lambda>t. ''difficulty''),
       read_time = (\<lambda>s. Some 1600000000), read_u64 = (\<lambda>s. Some 2500000),
       read_hash = (\<lambda>s. Some (example_hash 1)),
       read_difficulty = (\<lambda>s. Some \<lparr> lo = 300000000000, hi = 0 \<rparr>) \<rparr>"

definition example_header :: "64 word \<Rightarrow> 64 word \<Rightarrow> ChainMain" where
  "example_header h t =
     \<lparr> cm_difficulty = \<lparr> lo = 1000, hi = 0 \<rparr>, cm_height = h, cm_timestamp = t,
       cm_reward = 600000000000, cm_id = example_hash (ucast h) \<rparr>"

subsection \<open>Further values for the examples and the 128-bit reading\<close>

text \<open>The number a \<open>difficulty_type\<close> stands for.\<close>

definition to128 :: "difficulty_type \<Rightarrow> nat" where
  "to128 d = unat (hi d) * 2 ^ 64 + unat (lo d)"

definition example_found_block :: "64 word \<Rightarrow> FoundBlock" where
  "example_found_block th =
     \<lparr> fb_timestamp = 1650000000, fb_height = 2600000, fb_id = example_hash 7,
       fb_block_diff = \<lparr> lo = 300000000000, hi = 0 \<rparr>,
       fb_total_hashes = \<lparr> lo = th, hi = 0 \<rparr> \<rparr>"

definition example_file :: blocks_file where
  "example_file =
     \<lparr> bf_fields = [''1650000000'', ''2600000'', ''0707'', ''300000000000'', ''4000''],
       bf_trailing_space = True \<rparr>"

subsection \<open>The bytes behind the rendered text\<close>

text \<open>The loop of \<open>submit_block\<close> with the bytes it renders in place of their two
  hexadecimal digits, the number of bytes of a nonce written before index \<open>i\<close>, and the
  byte expected at position \<open>k\<close> of the spliced blob.\<close>

fun submit_block_bytes ::
  "64 word \<Rightarrow> 64 word \<Rightarrow> nat \<Rightarrow> 32 word \<Rightarrow> 32 word \<Rightarrow> 8 word list \<Rightarrow> 8 word list" where
  "submit_block_bytes nonce_offset extra_nonce_offset i nonce extra_nonce [] = []"
| "submit_block_bytes nonce_offset extra_nonce_offset i nonce extra_nonce (b # blob) =
     (if nonce_offset \<noteq> 0 \<and> unat nonce_offset \<le> i \<and> i < unat (nonce_offset + 4)
      then ucast (nonce AND 255)
           # submit_block_bytes nonce_offset extra_nonce_offset (Suc i) (drop_bit 8 nonce) extra_nonce blob
      else if extra_nonce_offset \<noteq> 0 \<and> unat extra_nonce_offset \<le> i
              \<and> i < unat (extra_nonce_offset + 4)
      then ucast (extra_nonce AND 255)
           # submit_block_bytes nonce_offset extra_nonce_offset (Suc i) nonce (drop_bit 8 extra_nonce) blob
      else b
           # submit_block_bytes nonce_offset extra_nonce_offset (Suc i) nonce extra_nonce blob)"

definition written :: "nat \<Rightarrow> nat \<Rightarrow> nat" where
  "written x i = min 4 (i - x)"

definition expected_byte :: "nat \<Rightarrow> nat \<Rightarrow> 32 word \<Rightarrow> 32 word \<Rightarrow> nat \<Rightarrow> 8 word \<Rightarrow> 8 word" where
  "expected_byte x y N E k b =
     (if x \<le> k \<and> k < x + 4 then ucast (drop_bit (8 * (k - x)) N)
      else if y \<le> k \<and> k < y + 4 then ucast (drop_bit (8 * (k - y)) E)
      else b)"

subsection \<open>The mirror property of the two indexes\<close>







section \<open>Verification\<close>

subsection \<open>The hashes of the examples\<close>

lemma length_hash_default: "length hash_default = 32"
  by (simp add: hash_default_def HASH_SIZE_def)

lemma example_hash_first: "example_hash b ! 0 = b"
  by (simp add: example_hash_def length_hash_default)

lemma hash_default_first: "hash_default ! 0 = 0"
  by (simp add: hash_default_def HASH_SIZE_def)

lemma example_hash_eq [simp]: "example_hash a = example_hash b \<longleftrightarrow> a = b"
proof
  assume "example_hash a = example_hash b"
  then have "example_hash a ! 0 = example_hash b ! 0" by (rule arg_cong)
  then show "a = b" by (simp only: example_hash_first)
next
  assume "a = b"
  then show "example_hash a = example_hash b" by (rule arg_cong)
qed

lemma example_hash_is_default [simp]: "example_hash a = hash_default \<longleftrightarrow> a = 0"
proof
  assume "example_hash a = hash_default"
  then have "example_hash a ! 0 = hash_default ! 0" by (rule arg_cong)
  then show "a = 0" by (simp only: example_hash_first hash_default_first)
next
  assume a: "a = 0"
  have "hash_default[0 := hash_default ! 0] = hash_default" by (rule list_update_id)
  then show "example_hash a = hash_default"
    unfolding a example_hash_def by (simp only: hash_default_first)
qed

lemma hash_default_is_example [simp]: "hash_default = example_hash a \<longleftrightarrow> a = 0"
  using example_hash_is_default[of a] by (simp only: eq_commute[of hash_default])

subsection \<open>Seed height\<close>

lemma and_not_2047_le: "(x::64 word) AND NOT 2047 \<le> x"
  by (simp add: word_and_le2)

lemma and_not_2047_low_bits: "((x::64 word) AND NOT 2047) AND 2047 = 0"
  by (simp add: and.assoc)

lemma mask_11: "(2047 :: 64 word) = mask 11"
  by (simp add: mask_eq_exp_minus_1)

lemma take_bit_11_and_not: "take_bit 11 ((x::64 word) AND NOT 2047) = 0"
  using and_not_2047_low_bits[of x] by (simp only: mask_11 take_bit_eq_mask)

lemma and_not_2047_dvd: "2048 dvd unat ((x::64 word) AND NOT 2047)"
proof -
  have "take_bit 11 (unat (x AND NOT 2047)) = unat (take_bit 11 (x AND NOT 2047))"
    by (rule unsigned_take_bit_eq[symmetric])
  then have "take_bit 11 (unat (x AND NOT 2047)) = 0"
    by (simp only: take_bit_11_and_not unsigned_0)
  then show ?thesis
    by (simp add: take_bit_eq_0_iff)
qed

lemma and_not_2047_mod: "((x::64 word) AND NOT 2047) mod 2048 = 0"
  using take_bit_11_and_not[of x] by (simp add: take_bit_eq_mod)

lemma seed_height_lag_nat:
  assumes "64 < (h::64 word)"
  shows "unat ((h - 65) AND NOT 2047) + 64 < unat h"
proof -
  have h65: "65 \<le> h"
    using assms by (simp add: word_less_nat_alt word_le_nat_alt)
  have "unat ((h - 65) AND NOT 2047) \<le> unat (h - 65)"
    using and_not_2047_le[of "h - 65"] by (simp add: word_le_nat_alt)
  also have "unat (h - 65) = unat h - 65"
    using h65 by (simp add: unat_sub)
  finally show ?thesis
    using h65 by (simp add: word_le_nat_alt)
qed

lemma seed_height_lag_word:
  assumes "64 < (h::64 word)"
  shows "((h - 65) AND NOT 2047) + 64 < h"
proof -
  have "unat h < 2 ^ 64"
    using unsigned_less[of h, where 'a=nat] by simp
  then have "unat (((h - 65) AND NOT 2047) + 64) = unat ((h - 65) AND NOT 2047) + 64"
    using seed_height_lag_nat[OF assms] by (simp add: unat_word_ariths)
  then show ?thesis
    using seed_height_lag_nat[OF assms] by (simp add: word_less_nat_alt)
qed

text \<open>
  Claim C3.  For every height \<open>h\<close>, \<open>get_seed_height h\<close> is \<open>(h - 65) & ~(2048 - 1)\<close> when
  \<open>h > 64\<close> and 0 otherwise.  So it is 0 for every \<open>h \<le> 64\<close>, and for every \<open>h > 64\<close>
  the result is divisible by 2048 and \<open>get_seed_height h + 64 < h\<close> (in 64-bit
  arithmetic, and without overflow as natural numbers).
\<close>

theorem get_seed_height_spec:
  "get_seed_height h = (if 64 < h then (h - 65) AND NOT (2048 - 1) else 0)
   \<and> (h \<le> 64 \<longrightarrow> get_seed_height h = 0)
   \<and> (64 < h \<longrightarrow> get_seed_height h mod 2048 = 0
                 \<and> 2048 dvd unat (get_seed_height h)
                 \<and> get_seed_height h + 64 < h
                 \<and> unat (get_seed_height h) + 64 < unat h)"
  using and_not_2047_dvd[of "h - 65"] and_not_2047_mod[of "h - 65"]
    seed_height_lag_nat[of h] seed_height_lag_word[of h]
  by (auto simp: get_seed_height_def SEEDHASH_EPOCH_LAG_def SEEDHASH_EPOCH_BLOCKS_def)

theorem get_seed_height_spec_witness:
  "get_seed_height 5000 = 4096 \<and> get_seed_height 64 = 0
   \<and> unat (get_seed_height 5000) + 64 < unat (5000 :: 64 word)"
  using get_seed_height_spec[of 5000] get_seed_height_spec[of 64]
  by simp

subsection \<open>Pruning the index\<close>

lemma no_wrap_add_720:
  assumes "unat (h::64 word) + 720 < 2 ^ 64"
  shows "unat (h + BLOCK_HEADERS_REQUIRED) = unat h + 720"
  using assms by (simp add: BLOCK_HEADERS_REQUIRED_def unat_word_ariths)

lemma stop_holds_for_later_heights:
  assumes "sorted_wrt (<) (map fst ((h, c) # rest))"
    and "\<forall>(h', c') \<in> set ((h, c) # rest). unat h' + 720 < 2 ^ 64"
    and "h + BLOCK_HEADERS_REQUIRED \<ge> height"
    and "(h', c') \<in> set ((h, c) # rest)"
  shows "\<not> (h' + BLOCK_HEADERS_REQUIRED < height)"
proof -
  have le: "unat h \<le> unat h'"
    using assms(1,4) by (auto simp: word_less_nat_alt)
  have nw: "unat h' + 720 < 2 ^ 64" "unat h + 720 < 2 ^ 64"
    using assms(2,4) by auto
  have "unat height \<le> unat h + 720"
    using assms(3) no_wrap_add_720[OF nw(2)] by (simp add: word_le_nat_alt)
  then have "unat height \<le> unat (h' + BLOCK_HEADERS_REQUIRED)"
    using le no_wrap_add_720[OF nw(1)] by simp
  then show ?thesis by (simp add: word_less_nat_alt)
qed

lemma cleanup_loop_filter:
  assumes "sorted_wrt (<) (map fst m)"
    and "\<forall>(h, c) \<in> set m. unat h + 720 < 2 ^ 64"
  shows "fst (cleanup_loop height s m bh) =
         filter (\<lambda>(h, c). \<not> (h + BLOCK_HEADERS_REQUIRED < height) \<or> h \<in> set s) m"
  using assms
proof (induction m arbitrary: bh)
  case Nil
  then show ?case by simp
next
  case (Cons e m)
  obtain h c where e: "e = (h, c)" by (cases e)
  show ?case
  proof (cases "h + BLOCK_HEADERS_REQUIRED \<ge> height")
    case True
    have "\<forall>x \<in> set ((h, c) # m). (\<lambda>(h', c'). \<not> (h' + BLOCK_HEADERS_REQUIRED < height) \<or> h' \<in> set s) x"
      using stop_holds_for_later_heights[OF Cons.prems(1)[unfolded e] Cons.prems(2)[unfolded e] True]
      by (auto simp del: set_simps)
    then have "filter (\<lambda>(h', c'). \<not> (h' + BLOCK_HEADERS_REQUIRED < height) \<or> h' \<in> set s) ((h, c) # m) = (h, c) # m"
      by (simp only: filter_True)
    then show ?thesis using True unfolding e by (simp del: filter.simps)
  next
    case False
    have IH: "fst (cleanup_loop height s m bh') =
         filter (\<lambda>(h, c). \<not> (h + BLOCK_HEADERS_REQUIRED < height) \<or> h \<in> set s) m" for bh'
      using Cons.IH[of bh'] Cons.prems by simp
    show ?thesis using False IH unfolding e
      by (auto simp: Let_def)
  qed
qed


lemma cleanup_loop_noop:
  assumes "\<forall>(h, c) \<in> set m. unat h + 720 < 2 ^ 64" and "height < 720"
  shows "cleanup_loop height s m bh = (m, bh)"
proof (cases m)
  case Nil
  then show ?thesis by simp
next
  case (Cons e rest)
  obtain h c where e: "e = (h, c)" by (cases e)
  have "unat h + 720 < 2 ^ 64" using assms(1) Cons e by auto
  then have "unat (h + BLOCK_HEADERS_REQUIRED) = unat h + 720"
    by (rule no_wrap_add_720)
  moreover have "unat height < 720" using assms(2) by (simp add: word_less_nat_alt)
  ultimately have "h + BLOCK_HEADERS_REQUIRED \<ge> height"
    by (simp add: word_le_nat_alt)
  then show ?thesis using Cons e by simp
qed

lemma seed_heights_of_set:
  "h \<in> set (seed_heights_of tip) \<longleftrightarrow>
     h = get_seed_height tip \<or> h = get_seed_height tip - 2048 \<or> h = get_seed_height tip - 4096"
  by (auto simp: seed_heights_of_def Let_def SEEDHASH_EPOCH_BLOCKS_def)

text \<open>
  Claim C2, as stated, fails.  With tip 1000 the heights 280 (= tip - 720) and 2000 both
  stay in the index although neither lies in \<open>[tip - 719, tip]\<close> nor is a seed height;
  and with tip 100 (below 720) an entry at height \<open>2^64 - 720\<close> is dropped, because
  \<open>h + 720\<close> wraps around to 0.
\<close>

theorem cleanup_mainchain_data_counterexample:
  "map fst (m_mainchainByHeight (cleanup_mainchain_data 1000
      ((p2pool_init True None)\<lparr> m_mainchainByHeight :=
          [(280, example_header 280 5), (2000, example_header 2000 6)] \<rparr>))) = [280, 2000]
   \<and> \<not> (1000 - 719 \<le> (280 :: 64 word) \<and> (280 :: 64 word) \<le> 1000)
   \<and> \<not> (1000 - 719 \<le> (2000 :: 64 word) \<and> (2000 :: 64 word) \<le> 1000)
   \<and> (280 :: 64 word) \<noteq> get_seed_height 1000
   \<and> (280 :: 64 word) \<noteq> get_seed_height 1000 - 2048
   \<and> (280 :: 64 word) \<noteq> get_seed_height 1000 - 4096
   \<and> (2000 :: 64 word) \<noteq> get_seed_height 1000
   \<and> (2000 :: 64 word) \<noteq> get_seed_height 1000 - 2048
   \<and> (2000 :: 64 word) \<noteq> get_seed_height 1000 - 4096
   \<and> (100 :: 64 word) < 720
   \<and> m_mainchainByHeight (cleanup_mainchain_data 100
        ((p2pool_init True None)\<lparr> m_mainchainByHeight :=
            [(18446744073709550896, example_header 18446744073709550896 7)] \<rparr>)) = []"
  by (simp add: cleanup_mainchain_data_def p2pool_init_def BLOCK_HEADERS_REQUIRED_def Let_def
      seed_heights_of_def get_seed_height_def SEEDHASH_EPOCH_LAG_def SEEDHASH_EPOCH_BLOCKS_def)

text \<open>
  Claim C2, amended.  On an index (ascending by height) in which no height overflows when
  720 is added, \<open>cleanup_mainchain_data tip\<close> drops exactly the entries with
  \<open>h + 720 < tip\<close> whose height is none of the three seed heights
  \<open>seed_height(tip)\<close>, \<open>seed_height(tip) - 2048\<close>, \<open>seed_height(tip) - 4096\<close>; so every
  remaining height satisfies \<open>tip \<le> h + 720\<close> or is one of those seed heights (heights
  above the tip stay); and for \<open>tip < 720\<close> the state is unchanged.
\<close>

theorem cleanup_mainchain_data_spec:
  assumes "ordered (m_mainchainByHeight st)"
    and "\<forall>(h, c) \<in> set (m_mainchainByHeight st). unat h + 720 < 2 ^ 64"
  shows "m_mainchainByHeight (cleanup_mainchain_data tip st) =
           filter (\<lambda>(h, c). \<not> (h + 720 < tip)
                     \<or> h = get_seed_height tip \<or> h = get_seed_height tip - 2048
                     \<or> h = get_seed_height tip - 4096)
             (m_mainchainByHeight st)
         \<and> (\<forall>(h, c) \<in> set (m_mainchainByHeight (cleanup_mainchain_data tip st)).
               unat tip \<le> unat h + 720
               \<or> h = get_seed_height tip \<or> h = get_seed_height tip - 2048
               \<or> h = get_seed_height tip - 4096)
         \<and> (tip < 720 \<longrightarrow> cleanup_mainchain_data tip st = st)"
proof -
  let ?m = "m_mainchainByHeight st"
  let ?keep = "\<lambda>(h, c). \<not> (h + 720 < tip)
                     \<or> h = get_seed_height tip \<or> h = get_seed_height tip - 2048
                     \<or> h = get_seed_height tip - 4096"
  have sorted: "sorted_wrt (<) (map fst ?m)"
    using assms(1) by (simp add: ordered_def)
  have "fst (cleanup_loop tip (seed_heights_of tip) ?m (m_mainchainByHash st)) =
        filter (\<lambda>(h, c). \<not> (h + BLOCK_HEADERS_REQUIRED < tip) \<or> h \<in> set (seed_heights_of tip)) ?m"
    by (rule cleanup_loop_filter[OF sorted assms(2)])
  also have "\<dots> = filter ?keep ?m"
    by (simp add: seed_heights_of_set BLOCK_HEADERS_REQUIRED_def)
  finally have A: "m_mainchainByHeight (cleanup_mainchain_data tip st) = filter ?keep ?m"
    by (simp add: cleanup_mainchain_data_def Let_def)
  have B: "unat tip \<le> unat h + 720
               \<or> h = get_seed_height tip \<or> h = get_seed_height tip - 2048
               \<or> h = get_seed_height tip - 4096"
    if "(h, c) \<in> set (filter ?keep ?m)" for h c
  proof -
    have nw: "unat h + 720 < 2 ^ 64" using that assms(2) by auto
    have "unat (h + 720) = unat h + 720"
      using no_wrap_add_720[OF nw] by (simp add: BLOCK_HEADERS_REQUIRED_def)
    then show ?thesis using that by (auto simp: word_less_nat_alt)
  qed
  have C: "cleanup_mainchain_data tip st = st" if "tip < 720"
    using cleanup_loop_noop[OF assms(2) that]
    by (simp add: cleanup_mainchain_data_def Let_def)
  show ?thesis
    using A B C by (simp only: A) blast
qed

theorem cleanup_mainchain_data_spec_witness:
  "m_mainchainByHeight (cleanup_mainchain_data 5000
      ((p2pool_init True None)\<lparr> m_mainchainByHeight :=
          [(0, example_header 0 1), (100, example_header 100 2), (2048, example_header 2048 3),
           (4000, example_header 4000 4), (4096, example_header 4096 5),
           (4280, example_header 4280 6), (4999, example_header 4999 7)] \<rparr>))
     = [(0, example_header 0 1), (2048, example_header 2048 3), (4096, example_header 4096 5),
        (4280, example_header 4280 6), (4999, example_header 4999 7)]
   \<and> cleanup_mainchain_data 700
        ((p2pool_init True None)\<lparr> m_mainchainByHeight := [(1, example_header 1 1), (699, example_header 699 2)] \<rparr>)
      = (p2pool_init True None)\<lparr> m_mainchainByHeight := [(1, example_header 1 1), (699, example_header 699 2)] \<rparr>"
  using cleanup_mainchain_data_spec[of "(p2pool_init True None)\<lparr> m_mainchainByHeight :=
          [(0, example_header 0 1), (100, example_header 100 2), (2048, example_header 2048 3),
           (4000, example_header 4000 4), (4096, example_header 4096 5),
           (4280, example_header 4280 6), (4999, example_header 4999 7)] \<rparr>" 5000]
    cleanup_mainchain_data_spec[of "(p2pool_init True None)\<lparr> m_mainchainByHeight :=
          [(1, example_header 1 1), (699, example_header 699 2)] \<rparr>" 700]
  by (simp add: ordered_def get_seed_height_def SEEDHASH_EPOCH_LAG_def SEEDHASH_EPOCH_BLOCKS_def)


subsection \<open>Transactions\<close>

text \<open>
  Claim C7.  A transaction with weight 0 or fee 0 is rejected: \<open>handle_tx\<close> leaves the
  whole state unchanged, so \<open>Mempool::add\<close> is not called and the mempool is as before.
  A transaction with both fields non-zero is handed to \<open>Mempool::add\<close>: that call, with
  this transaction, is the one call made.
\<close>

theorem handle_tx_spec:
  "(tx_weight tx = 0 \<or> tx_fee tx = 0 \<longrightarrow> handle_tx e tx st = st)
   \<and> (tx_weight tx \<noteq> 0 \<and> tx_fee tx \<noteq> 0 \<longrightarrow>
        calls (handle_tx e tx st) = calls st @ [Mempool_add tx])"
  by (simp add: handle_tx_def do_call_def)

theorem handle_tx_spec_witness:
  "handle_tx example_env \<lparr> tx_id = example_hash 1, tx_blob_size = 100, tx_weight = 0, tx_fee = 7 \<rparr> (p2pool_init True None)
     = p2pool_init True None
   \<and> handle_tx example_env \<lparr> tx_id = example_hash 1, tx_blob_size = 100, tx_weight = 9, tx_fee = 0 \<rparr> (p2pool_init True None)
     = p2pool_init True None
   \<and> calls (handle_tx example_env \<lparr> tx_id = example_hash 1, tx_blob_size = 100, tx_weight = 9, tx_fee = 7 \<rparr> (p2pool_init True None))
     = [Mempool_add \<lparr> tx_id = example_hash 1, tx_blob_size = 100, tx_weight = 9, tx_fee = 7 \<rparr>]"
  using handle_tx_spec[of "\<lparr> tx_id = example_hash 1, tx_blob_size = 100, tx_weight = 0, tx_fee = 7 \<rparr>" example_env "p2pool_init True None"]
    handle_tx_spec[of "\<lparr> tx_id = example_hash 1, tx_blob_size = 100, tx_weight = 9, tx_fee = 0 \<rparr>" example_env "p2pool_init True None"]
    handle_tx_spec[of "\<lparr> tx_id = example_hash 1, tx_blob_size = 100, tx_weight = 9, tx_fee = 7 \<rparr>" example_env "p2pool_init True None"]
  by (simp add: p2pool_init_def)

subsection \<open>The pending submit request\<close>

text \<open>
  Claim C8, as stated, fails: in the constructor's state the blob is empty and the three
  numbers are 0, so both alternatives hold, not exactly one.
\<close>

theorem pending_submit_xor_counterexample:
  "reachable_submit (m_submitBlockData (p2pool_init True None))
   \<and> \<not> ((sb_blob (m_submitBlockData (p2pool_init True None)) = [])
        \<noteq> (sb_template_id (m_submitBlockData (p2pool_init True None)) = 0
           \<and> sb_nonce (m_submitBlockData (p2pool_init True None)) = 0
           \<and> sb_extra_nonce (m_submitBlockData (p2pool_init True None)) = 0))"
  by (simp add: reachable_submit.init) (simp add: p2pool_init_def)

text \<open>
  Claim C8, amended.  In every reachable state of the pending-submit record (the
  constructor's, and after each of the two entry points of \<open>submit_block_async\<close>) at
  least one of the two holds: the external blob is empty, or \<open>template_id\<close>, \<open>nonce\<close>
  and \<open>extra_nonce\<close> are all 0.
\<close>

theorem pending_submit_invariant:
  assumes "reachable_submit d"
  shows "sb_blob d = [] \<or> (sb_template_id d = 0 \<and> sb_nonce d = 0 \<and> sb_extra_nonce d = 0)"
  using assms
  by (induction rule: reachable_submit.induct)
     (simp_all add: p2pool_init_def submit_block_async_def submit_block_async_blob_def do_call_def)

theorem pending_submit_invariant_witness:
  "reachable_submit (m_submitBlockData (submit_block_async_blob [1, 2, 3] (submit_block_async 5 6 7 (p2pool_init True None))))
   \<and> sb_blob (m_submitBlockData (submit_block_async_blob [1, 2, 3] (submit_block_async 5 6 7 (p2pool_init True None)))) \<noteq> []
   \<and> sb_template_id (m_submitBlockData (submit_block_async_blob [1, 2, 3] (submit_block_async 5 6 7 (p2pool_init True None)))) = 0"
proof -
  have r: "reachable_submit (m_submitBlockData (submit_block_async_blob [1, 2, 3] (submit_block_async 5 6 7 (p2pool_init True None))))"
    by (intro reachable_submit.intros)
  show ?thesis
    using r pending_submit_invariant[OF r]
    by (simp add: submit_block_async_blob_def do_call_def)
qed

subsection \<open>Median timestamp\<close>

lemma get_timestamps_loop_fills:
  assumes "length ts = W" and "i \<le> W" and "W - i \<le> length es"
  shows "get_timestamps_loop W i es ts = take i ts @ map (\<lambda>e. cm_timestamp (snd e)) (take (W - i) es)"
  using assms
proof (induction es arbitrary: i ts)
  case Nil
  then show ?case by simp
next
  case (Cons e es)
  show ?case
  proof (cases "i < W")
    case True
    have len: "length (ts[i := cm_timestamp (snd e)]) = W"
      using Cons.prems(1) by simp
    have step: "get_timestamps_loop W (Suc i) es (ts[i := cm_timestamp (snd e)]) =
          take (Suc i) (ts[i := cm_timestamp (snd e)])
          @ map (\<lambda>e. cm_timestamp (snd e)) (take (W - Suc i) es)"
      using Cons.IH[OF len, of "Suc i"] True Cons.prems(3) by simp
    have tk: "take (Suc i) (ts[i := cm_timestamp (snd e)]) = take i ts @ [cm_timestamp (snd e)]"
      using True Cons.prems(1) by (simp add: take_Suc_conv_app_nth)
    have "take (W - i) (e # es) = e # take (W - Suc i) es"
    proof -
      have "W - i = Suc (W - Suc i)" using True by arith
      then show ?thesis by (simp only: take_Suc_Cons)
    qed
    then show ?thesis
      using True step tk by simp
  next
    case False
    then show ?thesis using Cons.prems by simp
  qed
qed

lemma get_timestamps_Some:
  assumes "W < length m" and "length ts = W"
  shows "get_timestamps W m ts = Some (map (\<lambda>e. cm_timestamp (snd e)) (take W (rev m)))"
  using assms get_timestamps_loop_fills[of ts W 0 "rev m"]
  by (simp add: get_timestamps_def)

text \<open>
  Claim C4.  With \<open>W\<close> for \<open>TIMESTAMP_WINDOW\<close>: when the index by height holds at most
  \<open>W\<close> entries, \<open>get_timestamps\<close> fails and \<open>update_median_timestamp\<close> sets the median
  timestamp to 0; with more than \<open>W\<close> entries \<open>get_timestamps\<close> succeeds and yields the
  timestamps of the last \<open>W\<close> entries by height, latest first, and (for
  \<open>W > 2\<close>, so that cell \<open>W/2 + 1\<close> exists) the median becomes
  \<open>(a[W/2] + a[W/2+1]) / 2\<close> in 64-bit arithmetic, where \<open>a\<close> is the ascending sort of
  the timestamps of the last \<open>W\<close> entries by height.
\<close>

theorem update_median_timestamp_spec:
  "(length (m_mainchainByHeight st) \<le> W \<longrightarrow>
      get_timestamps W (m_mainchainByHeight st) ts = None
      \<and> update_median_timestamp W st =
          Some (st\<lparr> m_minerData := (m_minerData st)\<lparr> md_median_timestamp := 0 \<rparr> \<rparr>))
   \<and> (W < length (m_mainchainByHeight st) \<longrightarrow>
        get_timestamps W (m_mainchainByHeight st) ts \<noteq> None)
   \<and> (W < length (m_mainchainByHeight st) \<and> length ts = W \<longrightarrow>
        get_timestamps W (m_mainchainByHeight st) ts =
          Some (map (\<lambda>e. cm_timestamp (snd e)) (take W (rev (m_mainchainByHeight st)))))
   \<and> (W < length (m_mainchainByHeight st) \<and> 2 < W \<longrightarrow>
        (let a = sort (map (\<lambda>e. cm_timestamp (snd e)) (take W (rev (m_mainchainByHeight st))))
         in update_median_timestamp W st =
              Some (st\<lparr> m_minerData := (m_minerData st)
                     \<lparr> md_median_timestamp := (a ! (W div 2) + a ! (W div 2 + 1)) div 2 \<rparr> \<rparr>)))"
proof -
  have A: "get_timestamps W (m_mainchainByHeight st) (replicate W 0) =
        Some (map (\<lambda>e. cm_timestamp (snd e)) (take W (rev (m_mainchainByHeight st))))"
    if "W < length (m_mainchainByHeight st)"
    using get_timestamps_Some[OF that, of "replicate W 0"] by simp
  have B: "W div 2 + 1 < W" if "2 < W"
    using that by arith
  have C: "get_timestamps W (m_mainchainByHeight st) ts =
          Some (map (\<lambda>e. cm_timestamp (snd e)) (take W (rev (m_mainchainByHeight st))))"
    if "W < length (m_mainchainByHeight st)" "length ts = W"
    using get_timestamps_Some[OF that] .
  have D: "(length (m_mainchainByHeight st) \<le> W \<longrightarrow>
      get_timestamps W (m_mainchainByHeight st) ts = None
      \<and> update_median_timestamp W st =
          Some (st\<lparr> m_minerData := (m_minerData st)\<lparr> md_median_timestamp := 0 \<rparr> \<rparr>))
   \<and> (W < length (m_mainchainByHeight st) \<longrightarrow>
        get_timestamps W (m_mainchainByHeight st) ts \<noteq> None)
   \<and> (W < length (m_mainchainByHeight st) \<and> 2 < W \<longrightarrow>
        (let a = sort (map (\<lambda>e. cm_timestamp (snd e)) (take W (rev (m_mainchainByHeight st))))
         in update_median_timestamp W st =
              Some (st\<lparr> m_minerData := (m_minerData st)
                     \<lparr> md_median_timestamp := (a ! (W div 2) + a ! (W div 2 + 1)) div 2 \<rparr> \<rparr>)))"
    using A B by (auto simp: update_median_timestamp_def get_timestamps_def Let_def)
  show ?thesis
    using C D by blast
qed

theorem update_median_timestamp_spec_witness:
  "update_median_timestamp 4
      ((p2pool_init True None)\<lparr> m_mainchainByHeight :=
          [(10, example_header 10 500), (11, example_header 11 70), (12, example_header 12 30),
           (13, example_header 13 90), (14, example_header 14 50)] \<rparr>)
    = Some ((p2pool_init True None)\<lparr> m_mainchainByHeight :=
          [(10, example_header 10 500), (11, example_header 11 70), (12, example_header 12 30),
           (13, example_header 13 90), (14, example_header 14 50)],
         m_minerData := MinerData_default\<lparr> md_median_timestamp := 80 \<rparr> \<rparr>)
   \<and> update_median_timestamp 4
      ((p2pool_init True None)\<lparr> m_mainchainByHeight :=
          [(11, example_header 11 70), (12, example_header 12 30),
           (13, example_header 13 90), (14, example_header 14 50)] \<rparr>)
    = Some ((p2pool_init True None)\<lparr> m_mainchainByHeight :=
          [(11, example_header 11 70), (12, example_header 12 30),
           (13, example_header 13 90), (14, example_header 14 50)],
         m_minerData := MinerData_default\<lparr> md_median_timestamp := 0 \<rparr> \<rparr>)"
  using update_median_timestamp_spec[of "(p2pool_init True None)\<lparr> m_mainchainByHeight :=
          [(10, example_header 10 500), (11, example_header 11 70), (12, example_header 12 30),
           (13, example_header 13 90), (14, example_header 14 50)] \<rparr>" 4 "[0, 0, 0, 0]"]
    update_median_timestamp_spec[of "(p2pool_init True None)\<lparr> m_mainchainByHeight :=
          [(11, example_header 11 70), (12, example_header 12 30),
           (13, example_header 13 90), (14, example_header 14 50)] \<rparr>" 4 "[0, 0, 0, 0]"]
  by (simp add: p2pool_init_def example_header_def Let_def)

subsection \<open>Telemetry\<close>

lemma difficulty_less_128: "difficulty_less a b \<longleftrightarrow> to128 a < to128 b"
proof -
  have la: "unat (lo a) < 2 ^ 64" using unsigned_less[of "lo a", where 'a=nat] by simp
  have lb: "unat (lo b) < 2 ^ 64" using unsigned_less[of "lo b", where 'a=nat] by simp
  consider "unat (hi a) < unat (hi b)" | "unat (hi a) = unat (hi b)" | "unat (hi b) < unat (hi a)"
    by arith
  then show ?thesis
  proof cases
    case 1
    then have "unat (hi a) + 1 \<le> unat (hi b)" by simp
    then have "(unat (hi a) + 1) * 2 ^ 64 \<le> unat (hi b) * (2 ^ 64 :: nat)"
      by (rule mult_le_mono1)
    then have "to128 a < to128 b" using la by (simp add: to128_def)
    then show ?thesis using 1 by (simp add: difficulty_less_def word_less_nat_alt)
  next
    case 2
    then have "hi a = hi b" by (simp add: word_unat_eq_iff)
    then show ?thesis
      by (auto simp: difficulty_less_def to128_def word_less_nat_alt)
  next
    case 3
    then have "unat (hi b) + 1 \<le> unat (hi a)" by simp
    then have "(unat (hi b) + 1) * 2 ^ 64 \<le> unat (hi a) * (2 ^ 64 :: nat)"
      by (rule mult_le_mono1)
    then have "to128 b < to128 a" using lb by (simp add: to128_def)
    then show ?thesis using 3 by (auto simp: difficulty_less_def word_less_nat_alt)
  qed
qed

text \<open>
  Claim C10.  \<open>api_update_stats_mod\<close> publishes nothing when the side chain's
  \<open>total_hashes\<close> is below the \<open>total_hashes\<close> of the last found block (compared as
  128-bit numbers), and nothing when there is no API.  Whenever it does publish, the
  recorded count is at most the cumulative one, the snapshot is \<open>global/stats_mod\<close>, and
  its \<open>roundHashes\<close> is \<open>total_hashes.lo - last_block_total_hashes.lo\<close>; with an API and
  a cumulative count not below the recorded one it publishes.
\<close>

theorem api_update_stats_mod_spec:
  "(difficulty_less (sidechain_total_hashes e)
       (last_or difficulty_default fb_total_hashes (m_foundBlocks st))
      \<longrightarrow> m_api (api_update_stats_mod e st) = m_api st)
   \<and> (m_api st = None \<longrightarrow> api_update_stats_mod e st = st)
   \<and> (m_api (api_update_stats_mod e st) \<noteq> m_api st \<longrightarrow>
        to128 (last_or difficulty_default fb_total_hashes (m_foundBlocks st))
          \<le> to128 (sidechain_total_hashes e)
        \<and> (\<exists>a s. m_api st = Some a
             \<and> m_api (api_update_stats_mod e st) = Some (a @ [(GLOBAL, ''stats_mod'', global_stats_mod s)])
             \<and> sm_round_hashes s = lo (sidechain_total_hashes e)
                  - lo (last_or difficulty_default fb_total_hashes (m_foundBlocks st))))
   \<and> (m_api st \<noteq> None
        \<and> \<not> difficulty_less (sidechain_total_hashes e)
               (last_or difficulty_default fb_total_hashes (m_foundBlocks st))
      \<longrightarrow> m_api (api_update_stats_mod e st) \<noteq> m_api st)"
proof -
  let ?last = "last_or difficulty_default fb_total_hashes (m_foundBlocks st)"
  have A: "difficulty_less (sidechain_total_hashes e) ?last \<Longrightarrow> m_api (api_update_stats_mod e st) = m_api st"
    by (simp add: api_update_stats_mod_def Let_def)
  have B: "m_api st = None \<Longrightarrow> api_update_stats_mod e st = st"
    by (simp add: api_update_stats_mod_def)
  have C: "to128 ?last \<le> to128 (sidechain_total_hashes e)"
    if "m_api (api_update_stats_mod e st) \<noteq> m_api st"
    using that A difficulty_less_128[of "sidechain_total_hashes e" ?last] by auto
  have D: "\<exists>a s. m_api st = Some a
             \<and> m_api (api_update_stats_mod e st) = Some (a @ [(GLOBAL, ''stats_mod'', global_stats_mod s)])
             \<and> sm_round_hashes s = lo (sidechain_total_hashes e) - lo ?last"
    if "m_api (api_update_stats_mod e st) \<noteq> m_api st"
  proof -
    have nl: "\<not> difficulty_less (sidechain_total_hashes e) ?last" using that A by blast
    have "m_api st \<noteq> None" using that B by force
    then obtain a where a: "m_api st = Some a" by blast
    show ?thesis
      using nl a by (simp add: api_update_stats_mod_def Let_def api_set_def)
  qed
  have E: "m_api (api_update_stats_mod e st) \<noteq> m_api st"
    if "m_api st \<noteq> None" "\<not> difficulty_less (sidechain_total_hashes e) ?last"
    using that by (auto simp: api_update_stats_mod_def Let_def api_set_def)
  show ?thesis using A B C D E by blast
qed

theorem api_update_stats_mod_spec_witness:
  "m_api (api_update_stats_mod example_env
      ((p2pool_init True None)\<lparr> m_foundBlocks := [example_found_block 9000] \<rparr>)) = Some []
   \<and> m_api (api_update_stats_mod example_env
      ((p2pool_init True None)\<lparr> m_foundBlocks := [example_found_block 1000] \<rparr>))
      = Some [(GLOBAL, ''stats_mod'', global_stats_mod
          \<lparr> sm_stratum_port = 3333, sm_network_height = 0,
            sm_last_block_found_time = 1650000000, sm_last_block_found_hash = example_hash 7,
            sm_last_block_found_height = 2600000, sm_miners = 3, sm_hashrate = 100,
            sm_round_hashes = 4000 \<rparr>)]
   \<and> to128 \<lparr> lo = 1000, hi = 0 \<rparr> \<le> to128 \<lparr> lo = 5000, hi = 0 \<rparr>
   \<and> api_update_stats_mod example_env (p2pool_init False None) = p2pool_init False None"
proof -
  let ?A = "(p2pool_init True None)\<lparr> m_foundBlocks := [example_found_block 9000] \<rparr>"
  let ?B = "(p2pool_init True None)\<lparr> m_foundBlocks := [example_found_block 1000] \<rparr>"
  have less: "difficulty_less (sidechain_total_hashes example_env)
       (last_or difficulty_default fb_total_hashes (m_foundBlocks ?A))"
    by (simp add: example_env_def last_or_def example_found_block_def difficulty_less_def)
  have nless: "m_api ?B \<noteq> None \<and> \<not> difficulty_less (sidechain_total_hashes example_env)
       (last_or difficulty_default fb_total_hashes (m_foundBlocks ?B))"
    by (simp add: example_env_def last_or_def example_found_block_def difficulty_less_def p2pool_init_def)
  have none: "m_api (p2pool_init False None) = None"
    by (simp add: p2pool_init_def)
  have 1: "m_api (api_update_stats_mod example_env ?A) = Some []"
    using api_update_stats_mod_spec[of example_env ?A] less by (simp add: p2pool_init_def)
  have 2: "m_api (api_update_stats_mod example_env ?B) \<noteq> m_api ?B"
    using api_update_stats_mod_spec[of example_env ?B] nless by blast
  have 3: "to128 \<lparr> lo = 1000, hi = 0 \<rparr> \<le> to128 \<lparr> lo = 5000, hi = 0 \<rparr>"
    using api_update_stats_mod_spec[of example_env ?B] 2
    by (simp add: example_env_def last_or_def example_found_block_def)
  have 4: "api_update_stats_mod example_env (p2pool_init False None) = p2pool_init False None"
    using api_update_stats_mod_spec[of example_env "p2pool_init False None"] none by blast
  have 5: "m_api (api_update_stats_mod example_env ?B)
      = Some [(GLOBAL, ''stats_mod'', global_stats_mod
          \<lparr> sm_stratum_port = 3333, sm_network_height = 0,
            sm_last_block_found_time = 1650000000, sm_last_block_found_hash = example_hash 7,
            sm_last_block_found_height = 2600000, sm_miners = 3, sm_hashrate = 100,
            sm_round_hashes = 4000 \<rparr>)]"
    by (simp add: api_update_stats_mod_def Let_def api_set_def p2pool_init_def example_env_def
        last_or_def example_found_block_def difficulty_less_def hash_index_def
        MinerData_default_def ChainMain_default_def miners_of_def hashrate_of_def)
  show ?thesis using 1 3 4 5 by blast
qed

subsection \<open>Found blocks\<close>

text \<open>
  Claim C9.  Without an API object (\<open>m_api\<close> null) \<open>load_found_blocks\<close> returns at once
  with the state unchanged, whatever the found-blocks file holds: after the constructor
  and \<open>load_found_blocks\<close> the list of found blocks is still empty and the file has not
  been touched.
\<close>

theorem load_found_blocks_api_disabled:
  "(m_api st = None \<longrightarrow> load_found_blocks e st = Some st)
   \<and> load_found_blocks e (p2pool_init False file) = Some (p2pool_init False file)
   \<and> m_foundBlocks (p2pool_init False file) = []
   \<and> FOUND_BLOCKS_FILE (p2pool_init False file) = file"
  by (simp add: load_found_blocks_def p2pool_init_def)

theorem load_found_blocks_api_disabled_witness:
  "load_found_blocks example_env (p2pool_init False (Some example_file))
     = Some (p2pool_init False (Some example_file))
   \<and> m_foundBlocks (p2pool_init False (Some example_file)) = []
   \<and> map_option m_foundBlocks (load_found_blocks example_env (p2pool_init True (Some example_file)))
     = Some [\<lparr> fb_timestamp = 1600000000, fb_height = 2500000, fb_id = example_hash 1,
              fb_block_diff = \<lparr> lo = 300000000000, hi = 0 \<rparr>,
              fb_total_hashes = \<lparr> lo = 300000000000, hi = 0 \<rparr> \<rparr>]"
proof -
  have none: "m_api (p2pool_init False (Some example_file)) = None"
    by (simp add: p2pool_init_def)
  have 1: "load_found_blocks example_env (p2pool_init False (Some example_file))
     = Some (p2pool_init False (Some example_file))"
    using load_found_blocks_api_disabled[of "p2pool_init False (Some example_file)" example_env] none
    by blast
  have 2: "m_foundBlocks (p2pool_init False (Some example_file)) = []"
    by (simp add: p2pool_init_def)
  have 3: "map_option m_foundBlocks (load_found_blocks example_env (p2pool_init True (Some example_file)))
     = Some [\<lparr> fb_timestamp = 1600000000, fb_height = 2500000, fb_id = example_hash 1,
              fb_block_diff = \<lparr> lo = 300000000000, hi = 0 \<rparr>,
              fb_total_hashes = \<lparr> lo = 300000000000, hi = 0 \<rparr> \<rparr>]"
    by (simp add: load_found_blocks_def p2pool_init_def example_file_def example_env_def
        api_update_block_found_def do_call_def Let_def api_update_stats_mod_def api_set_def
        hash_index_def)
  show ?thesis using 1 2 3 by blast
qed

text \<open>
  Claim C6, as stated, fails: without an API object a block whose difficulty is indexed
  is recorded neither in the list nor in the file; and with an API object, when the file
  cannot be opened, such a block is appended to the list but not to the file.
\<close>

theorem api_update_block_found_counterexample:
  "get_difficulty_at_height
      ((p2pool_init False None)\<lparr> m_mainchainByHeight := [(100, example_header 100 5)] \<rparr>) 100
     = Some \<lparr> lo = 1000, hi = 0 \<rparr>
   \<and> m_foundBlocks (api_update_block_found example_env (Some (example_header 100 5))
        ((p2pool_init False None)\<lparr> m_mainchainByHeight := [(100, example_header 100 5)] \<rparr>)) = []
   \<and> FOUND_BLOCKS_FILE (api_update_block_found example_env (Some (example_header 100 5))
        ((p2pool_init False None)\<lparr> m_mainchainByHeight := [(100, example_header 100 5)] \<rparr>)) = None
   \<and> get_difficulty_at_height
      ((p2pool_init True None)\<lparr> m_mainchainByHeight := [(100, example_header 100 5)] \<rparr>) 100
     = Some \<lparr> lo = 1000, hi = 0 \<rparr>
   \<and> length (m_foundBlocks (api_update_block_found (example_env\<lparr> file_appendable := False \<rparr>)
        (Some (example_header 100 5))
        ((p2pool_init True None)\<lparr> m_mainchainByHeight := [(100, example_header 100 5)] \<rparr>))) = 1
   \<and> FOUND_BLOCKS_FILE (api_update_block_found (example_env\<lparr> file_appendable := False \<rparr>)
        (Some (example_header 100 5))
        ((p2pool_init True None)\<lparr> m_mainchainByHeight := [(100, example_header 100 5)] \<rparr>)) = None"
  by (simp add: get_difficulty_at_height_def find_height_def example_header_def
      api_update_block_found_def do_call_def Let_def p2pool_init_def api_update_stats_mod_def
      api_set_def example_env_def)

lemma api_update_stats_mod_frame:
  "m_foundBlocks (api_update_stats_mod e st) = m_foundBlocks st
   \<and> FOUND_BLOCKS_FILE (api_update_stats_mod e st) = FOUND_BLOCKS_FILE st
   \<and> m_mainchainByHeight (api_update_stats_mod e st) = m_mainchainByHeight st
   \<and> m_minerData (api_update_stats_mod e st) = m_minerData st
   \<and> calls (api_update_stats_mod e st) = calls st"
  by (simp add: api_update_stats_mod_def Let_def api_set_def)

text \<open>
  Claim C6, amended.  Without an API object \<open>api_update_block_found\<close> adds nothing to
  the list of found blocks nor to the file.  With an API object: when a \<open>ChainMain\<close> is
  supplied and the index has an entry for its height, one \<open>FoundBlock\<close> (with that
  entry's difficulty) is appended to the list and, if the file can be opened, one line to
  the file; when no data is supplied neither changes; when the height is not indexed the
  file does not change.
\<close>

theorem api_update_block_found_spec:
  "(m_api st = None \<longrightarrow>
      m_foundBlocks (api_update_block_found e data st) = m_foundBlocks st
      \<and> FOUND_BLOCKS_FILE (api_update_block_found e data st) = FOUND_BLOCKS_FILE st)
   \<and> (m_api st \<noteq> None \<and> data = None \<longrightarrow>
      m_foundBlocks (api_update_block_found e data st) = m_foundBlocks st
      \<and> FOUND_BLOCKS_FILE (api_update_block_found e data st) = FOUND_BLOCKS_FILE st)
   \<and> (m_api st \<noteq> None \<and> data = Some d \<and> get_difficulty_at_height st (cm_height d) = Some df \<longrightarrow>
      m_foundBlocks (api_update_block_found e data st) =
        m_foundBlocks st @ [\<lparr> fb_timestamp = now e, fb_height = cm_height d, fb_id = cm_id d,
                               fb_block_diff = df, fb_total_hashes = sidechain_total_hashes e \<rparr>]
      \<and> FOUND_BLOCKS_FILE (api_update_block_found e data st) =
          (if file_appendable e
           then Some (append_line
                  [show_time e (now e), show_u64 e (cm_height d), show_hash e (cm_id d),
                   show_difficulty e df, show_difficulty e (sidechain_total_hashes e)]
                  (FOUND_BLOCKS_FILE st))
           else FOUND_BLOCKS_FILE st))
   \<and> (data = Some d \<and> get_difficulty_at_height st (cm_height d) = None \<longrightarrow>
      FOUND_BLOCKS_FILE (api_update_block_found e data st) = FOUND_BLOCKS_FILE st)"
proof -
  let ?st' = "api_update_block_found e data st"
  have A: "m_foundBlocks ?st' = m_foundBlocks st \<and> FOUND_BLOCKS_FILE ?st' = FOUND_BLOCKS_FILE st"
    if "m_api st = None"
    using that by (simp add: api_update_block_found_def Let_def do_call_def)
  have B: "m_foundBlocks ?st' = m_foundBlocks st \<and> FOUND_BLOCKS_FILE ?st' = FOUND_BLOCKS_FILE st"
    if "data = None"
    using that
    by (simp add: api_update_block_found_def Let_def do_call_def api_update_stats_mod_frame api_set_def)
  have C: "m_foundBlocks ?st' =
        m_foundBlocks st @ [\<lparr> fb_timestamp = now e, fb_height = cm_height d, fb_id = cm_id d,
                               fb_block_diff = df, fb_total_hashes = sidechain_total_hashes e \<rparr>]
      \<and> FOUND_BLOCKS_FILE ?st' =
          (if file_appendable e
           then Some (append_line
                  [show_time e (now e), show_u64 e (cm_height d), show_hash e (cm_id d),
                   show_difficulty e df, show_difficulty e (sidechain_total_hashes e)]
                  (FOUND_BLOCKS_FILE st))
           else FOUND_BLOCKS_FILE st)"
    if "m_api st \<noteq> None" "data = Some d" "get_difficulty_at_height st (cm_height d) = Some df"
  proof -
    have g: "get_difficulty_at_height (do_call clear_crypto_cache st) (cm_height d) = Some df"
      using that(3) by (simp add: get_difficulty_at_height_def do_call_def)
    show ?thesis
      using that(1,2) g
      by (simp add: api_update_block_found_def Let_def api_update_stats_mod_frame api_set_def)
         (simp add: do_call_def)
  qed
  have D: "FOUND_BLOCKS_FILE ?st' = FOUND_BLOCKS_FILE st"
    if "data = Some d" "get_difficulty_at_height st (cm_height d) = None"
  proof -
    have g: "get_difficulty_at_height (do_call clear_crypto_cache st) (cm_height d) = None"
      using that(2) by (simp add: get_difficulty_at_height_def do_call_def)
    show ?thesis
      using that(1) g
      by (simp add: api_update_block_found_def Let_def api_update_stats_mod_frame api_set_def)
         (simp add: do_call_def)
  qed
  show ?thesis using A B C D by blast
qed

theorem api_update_block_found_spec_witness:
  "m_foundBlocks (api_update_block_found example_env (Some (example_header 100 5))
      ((p2pool_init True (Some example_file))\<lparr> m_mainchainByHeight := [(100, example_header 100 5)] \<rparr>))
     = [\<lparr> fb_timestamp = 1700000000, fb_height = 100, fb_id = example_hash 100,
           fb_block_diff = \<lparr> lo = 1000, hi = 0 \<rparr>, fb_total_hashes = \<lparr> lo = 5000, hi = 0 \<rparr> \<rparr>]
   \<and> FOUND_BLOCKS_FILE (api_update_block_found example_env (Some (example_header 100 5))
      ((p2pool_init True (Some example_file))\<lparr> m_mainchainByHeight := [(100, example_header 100 5)] \<rparr>))
     = Some \<lparr> bf_fields = [''1650000000'', ''2600000'', ''0707'', ''300000000000'', ''4000'',
                            ''time'', ''height'', ''hash'', ''difficulty'', ''difficulty''],
               bf_trailing_space = True \<rparr>
   \<and> m_foundBlocks (api_update_block_found example_env None (p2pool_init True (Some example_file))) = []
   \<and> FOUND_BLOCKS_FILE (api_update_block_found example_env None (p2pool_init True (Some example_file)))
     = Some example_file
   \<and> m_foundBlocks (api_update_block_found example_env (Some (example_header 100 5))
        (p2pool_init False (Some example_file))) = []
   \<and> FOUND_BLOCKS_FILE (api_update_block_found example_env (Some (example_header 100 5))
        (p2pool_init True (Some example_file))) = Some example_file"
proof -
  let ?A = "(p2pool_init True (Some example_file))\<lparr> m_mainchainByHeight := [(100, example_header 100 5)] \<rparr>"
  let ?d = "example_header 100 5"
  have a1: "m_api ?A \<noteq> None \<and> Some ?d = Some ?d
        \<and> get_difficulty_at_height ?A (cm_height ?d) = Some \<lparr> lo = 1000, hi = 0 \<rparr>"
    by (simp add: p2pool_init_def get_difficulty_at_height_def find_height_def example_header_def)
  have a2: "m_api (p2pool_init True (Some example_file)) \<noteq> None \<and> (None :: ChainMain option) = None"
    by (simp add: p2pool_init_def)
  have a3: "m_api (p2pool_init False (Some example_file)) = None"
    by (simp add: p2pool_init_def)
  have a4: "Some ?d = Some ?d
        \<and> get_difficulty_at_height (p2pool_init True (Some example_file)) (cm_height ?d) = None"
    by (simp add: p2pool_init_def get_difficulty_at_height_def find_height_def)
  show ?thesis
    using api_update_block_found_spec[of ?A example_env "Some ?d" ?d "\<lparr> lo = 1000, hi = 0 \<rparr>"] a1
      api_update_block_found_spec[of "p2pool_init True (Some example_file)" example_env None ?d "\<lparr> lo = 1000, hi = 0 \<rparr>"] a2
      api_update_block_found_spec[of "p2pool_init False (Some example_file)" example_env "Some ?d" ?d "\<lparr> lo = 1000, hi = 0 \<rparr>"] a3
      api_update_block_found_spec[of "p2pool_init True (Some example_file)" example_env "Some ?d" ?d "\<lparr> lo = 1000, hi = 0 \<rparr>"] a4
    by (simp add: p2pool_init_def example_env_def example_header_def example_file_def append_line_def)
qed

text \<open>With an API object, supplied data whose height is not indexed is still appended to
  the list in memory, with a zero difficulty.\<close>

lemma api_update_block_found_unknown_difficulty:
  assumes "m_api st \<noteq> None" and "get_difficulty_at_height st (cm_height d) = None"
  shows "m_foundBlocks (api_update_block_found e (Some d) st) =
           m_foundBlocks st @ [\<lparr> fb_timestamp = now e, fb_height = cm_height d, fb_id = cm_id d,
                                  fb_block_diff = difficulty_default,
                                  fb_total_hashes = sidechain_total_hashes e \<rparr>]"
proof -
  have g: "get_difficulty_at_height (do_call clear_crypto_cache st) (cm_height d) = None"
    using assms(2) by (simp add: get_difficulty_at_height_def do_call_def)
  show ?thesis
    using assms(1) g
    by (simp add: api_update_block_found_def Let_def api_update_stats_mod_frame api_set_def)
       (simp add: do_call_def)
qed

subsection \<open>Submitting a block\<close>

lemma from_hex_hex_digit:
  assumes "n < 16"
  shows "from_hex (hex_digit n) = Some (of_nat n)"
proof -
  have "n \<in> {0, 1, 2, 3, 4, 5, 6, 7, 8, 9, 10, 11, 12, 13, 14, 15}"
    using assms by (simp only: insert_iff empty_iff) arith
  then show ?thesis
    by (auto simp: from_hex_def hex_digit_def Let_def)
qed

lemma byte_nibbles:
  "push_bit 4 (of_nat (unat b div 16) :: 8 word) OR of_nat (unat b mod 16) = (b :: 8 word)"
proof -
  have hi: "(of_nat (unat b div 16) :: 8 word) = drop_bit 4 b"
    by (simp add: drop_bit_eq_div word_arith_nat_div)
  have lo: "(of_nat (unat b mod 16) :: 8 word) = take_bit 4 b"
    by (simp add: take_bit_eq_mod word_arith_nat_mod)
  show ?thesis
    unfolding hi lo
    by (rule bit_eqI) (auto simp: bit_simps)
qed

lemma hex_decode_printf_02x:
  "hex_decode (printf_02x b @ s) = map_option ((#) b) (hex_decode s)"
proof -
  have d: "unat b div 16 < 16" using unsigned_less[of b, where 'a=nat] by simp
  have m: "unat b mod 16 < 16" by simp
  show ?thesis
    using byte_nibbles[of b]
    by (cases "hex_decode s")
       (simp_all add: printf_02x_def from_hex_hex_digit[OF d] from_hex_hex_digit[OF m])
qed

lemma hex_decode_submit_block_hex:
  "hex_decode (submit_block_hex X Y i n e blob) = Some (submit_block_bytes X Y i n e blob)"
  by (induction blob arbitrary: i n e) (simp_all add: hex_decode_printf_02x)

lemma length_submit_block_bytes [simp]:
  "length (submit_block_bytes X Y i n e blob) = length blob"
  by (induction blob arbitrary: i n e) simp_all

lemma external_bytes: "submit_block_bytes 0 0 i n e blob = blob"
  by (induction blob arbitrary: i n e) simp_all

lemma ucast_and_255: "(ucast ((n :: 32 word) AND 255) :: 8 word) = ucast n"
proof -
  have m: "(255 :: 32 word) = mask 8"
    by (simp add: mask_eq_exp_minus_1)
  show ?thesis
    unfolding m by (rule bit_eqI) (auto simp: bit_simps)
qed

lemma submit_block_bytes_nonce:
  assumes "X \<noteq> 0 \<and> unat X \<le> i \<and> i < unat (X + 4)"
  shows "submit_block_bytes X Y i n e (b # blob) =
         ucast n # submit_block_bytes X Y (Suc i) (drop_bit 8 n) e blob"
  using assms by (simp add: ucast_and_255)

lemma submit_block_bytes_extra:
  assumes "\<not> (X \<noteq> 0 \<and> unat X \<le> i \<and> i < unat (X + 4))"
    and "Y \<noteq> 0 \<and> unat Y \<le> i \<and> i < unat (Y + 4)"
  shows "submit_block_bytes X Y i n e (b # blob) =
         ucast e # submit_block_bytes X Y (Suc i) n (drop_bit 8 e) blob"
  using assms by (auto simp: ucast_and_255)

lemma submit_block_bytes_plain:
  assumes "\<not> (X \<noteq> 0 \<and> unat X \<le> i \<and> i < unat (X + 4))"
    and "\<not> (Y \<noteq> 0 \<and> unat Y \<le> i \<and> i < unat (Y + 4))"
  shows "submit_block_bytes X Y i n e (b # blob) =
         b # submit_block_bytes X Y (Suc i) n e blob"
  using assms by auto

lemma submit_block_bytes_nth:
  assumes "X \<noteq> 0" and "Y \<noteq> 0"
    and "unat X + 4 \<le> unat Y \<or> unat Y + 4 \<le> unat X"
    and "i + length blob + 4 \<le> 2 ^ 64"
    and "j < length blob"
  shows "submit_block_bytes X Y i (drop_bit (8 * written (unat X) i) N)
            (drop_bit (8 * written (unat Y) i) E) blob ! j
         = expected_byte (unat X) (unat Y) N E (i + j) (blob ! j)"
  using assms(4,5)
proof (induction blob arbitrary: i j)
  case Nil
  then show ?case by simp
next
  case (Cons b blob)
  have inX: "(unat X \<le> i \<and> i < unat (X + 4)) \<longleftrightarrow> (unat X \<le> i \<and> i < unat X + 4)"
  proof (cases "unat X + 4 < 2 ^ 64")
    case True
    then have "unat (X + 4) = unat X + 4" by (simp add: unat_word_ariths)
    then show ?thesis by simp
  next
    case False
    then have "i < unat X" using Cons.prems(1) by simp
    then show ?thesis by simp
  qed
  have inY: "(unat Y \<le> i \<and> i < unat (Y + 4)) \<longleftrightarrow> (unat Y \<le> i \<and> i < unat Y + 4)"
  proof (cases "unat Y + 4 < 2 ^ 64")
    case True
    then have "unat (Y + 4) = unat Y + 4" by (simp add: unat_word_ariths)
    then show ?thesis by simp
  next
    case False
    then have "i < unat Y" using Cons.prems(1) by simp
    then show ?thesis by simp
  qed
  have len: "Suc i + length blob + 4 \<le> 2 ^ 64" using Cons.prems(1) by simp
  consider (nonce) "unat X \<le> i" "i < unat X + 4"
    | (extra) "\<not> (unat X \<le> i \<and> i < unat X + 4)" "unat Y \<le> i" "i < unat Y + 4"
    | (plain) "\<not> (unat X \<le> i \<and> i < unat X + 4)" "\<not> (unat Y \<le> i \<and> i < unat Y + 4)"
    by blast
  then show ?case
  proof cases
    case nonce
    have cX: "X \<noteq> 0 \<and> unat X \<le> i \<and> i < unat (X + 4)"
      using nonce assms(1) inX by blast
    have eX: "unat X \<le> i \<and> i < unat X + 4" using nonce by blast
    have wX: "written (unat X) i = i - unat X"
      using nonce by (auto simp: written_def)
    have wY: "written (unat Y) (Suc i) = written (unat Y) i"
      using nonce assms(3) by (auto simp: written_def)
    have step: "8 + 8 * written (unat X) i = 8 * written (unat X) (Suc i)"
      using nonce by (auto simp: written_def)
    show ?thesis
    proof (cases j)
      case 0
      have "expected_byte (unat X) (unat Y) N E i b = ucast (drop_bit (8 * (i - unat X)) N)"
        using eX by (simp add: expected_byte_def)
      then show ?thesis
        using 0 by (simp only: submit_block_bytes_nonce[OF cX] nth_Cons_0 wX add_0_right)
    next
      case (Suc j')
      then have "j' < length blob" using Cons.prems(2) by simp
      from Cons.IH[OF len this] show ?thesis
        using Suc
        by (simp only: submit_block_bytes_nonce[OF cX] nth_Cons_Suc drop_bit_drop_bit step wY
              add_Suc_right add_Suc)
    qed
  next
    case extra
    have cX: "\<not> (X \<noteq> 0 \<and> unat X \<le> i \<and> i < unat (X + 4))"
      using extra(1) inX by blast
    have cY: "Y \<noteq> 0 \<and> unat Y \<le> i \<and> i < unat (Y + 4)"
      using extra assms(2) inY by blast
    have wY: "written (unat Y) i = i - unat Y"
      using extra by (auto simp: written_def)
    have wX: "written (unat X) (Suc i) = written (unat X) i"
      using extra assms(3) by (auto simp: written_def)
    have step: "8 + 8 * written (unat Y) i = 8 * written (unat Y) (Suc i)"
      using extra by (auto simp: written_def)
    show ?thesis
    proof (cases j)
      case 0
      have "expected_byte (unat X) (unat Y) N E i b = ucast (drop_bit (8 * (i - unat Y)) E)"
        using extra by (auto simp: expected_byte_def)
      then show ?thesis
        using 0 by (simp only: submit_block_bytes_extra[OF cX cY] nth_Cons_0 wY add_0_right)
    next
      case (Suc j')
      then have "j' < length blob" using Cons.prems(2) by simp
      from Cons.IH[OF len this] show ?thesis
        using Suc
        by (simp only: submit_block_bytes_extra[OF cX cY] nth_Cons_Suc drop_bit_drop_bit step wX
              add_Suc_right add_Suc)
    qed
  next
    case plain
    have cX: "\<not> (X \<noteq> 0 \<and> unat X \<le> i \<and> i < unat (X + 4))"
      using plain(1) inX by blast
    have cY: "\<not> (Y \<noteq> 0 \<and> unat Y \<le> i \<and> i < unat (Y + 4))"
      using plain(2) inY by blast
    have wX: "written (unat X) (Suc i) = written (unat X) i"
      using plain by (auto simp: written_def)
    have wY: "written (unat Y) (Suc i) = written (unat Y) i"
      using plain by (auto simp: written_def)
    show ?thesis
    proof (cases j)
      case 0
      have "expected_byte (unat X) (unat Y) N E i b = b"
        using plain by (auto simp: expected_byte_def)
      then show ?thesis
        using 0 by (simp only: submit_block_bytes_plain[OF cX cY] nth_Cons_0 add_0_right)
    next
      case (Suc j')
      then have "j' < length blob" using Cons.prems(2) by simp
      from Cons.IH[OF len this] show ?thesis
        using Suc
        by (simp only: submit_block_bytes_plain[OF cX cY] nth_Cons_Suc wX wY
              add_Suc_right add_Suc)
    qed
  qed
qed


lemma length_replace_bytes [simp]: "length (replace_bytes blob x bs) = length blob"
  by (induction bs arbitrary: blob x) simp_all

lemma replace_bytes_nth:
  assumes "j < length blob"
  shows "replace_bytes blob x bs ! j =
         (if x \<le> j \<and> j < x + length bs then bs ! (j - x) else blob ! j)"
  using assms
proof (induction bs arbitrary: blob x)
  case Nil
  then show ?case by auto
next
  case (Cons b bs)
  have len: "j < length (blob[x := b])" using Cons.prems by simp
  show ?case
  proof (cases "j = x")
    case True
    then show ?thesis using Cons.IH[OF len, of "Suc x"] Cons.prems by simp
  next
    case False
    show ?thesis
    proof (cases "x < j")
      case True
      then have "j - x = Suc (j - Suc x)" by arith
      then show ?thesis using Cons.IH[OF len, of "Suc x"] True by auto
    next
      case False
      then have "j < x" using \<open>j \<noteq> x\<close> by arith
      then show ?thesis using Cons.IH[OF len, of "Suc x"] by simp
    qed
  qed
qed

lemma le32_nth:
  assumes "k < 4"
  shows "le32 N ! k = ucast (drop_bit (8 * k) N)"
proof -
  have "k \<in> {0, 1, 2, 3}" using assms by (simp only: insert_iff empty_iff) arith
  then show ?thesis by (auto simp: le32_def)
qed

lemma length_le32 [simp]: "length (le32 N) = 4"
  by (simp add: le32_def)

lemma spliced_nth:
  assumes "x + 4 \<le> y \<or> y + 4 \<le> x" and "j < length blob"
  shows "replace_bytes (replace_bytes blob x (le32 N)) y (le32 E) ! j =
         expected_byte x y N E j (blob ! j)"
proof -
  have "replace_bytes (replace_bytes blob x (le32 N)) y (le32 E) ! j =
        (if y \<le> j \<and> j < y + 4 then le32 E ! (j - y)
         else if x \<le> j \<and> j < x + 4 then le32 N ! (j - x) else blob ! j)"
    using assms(2) by (simp add: replace_bytes_nth)
  also have "\<dots> = expected_byte x y N E j (blob ! j)"
    using assms(1) by (auto simp: expected_byte_def le32_nth)
  finally show ?thesis .
qed

lemma submit_block_bytes_spliced:
  assumes "X \<noteq> 0" and "Y \<noteq> 0"
    and "unat X + 4 \<le> unat Y \<or> unat Y + 4 \<le> unat X"
    and "length blob + 4 \<le> 2 ^ 64"
  shows "submit_block_bytes X Y 0 N E blob =
         replace_bytes (replace_bytes blob (unat X) (le32 N)) (unat Y) (le32 E)"
proof (rule nth_equalityI)
  show "length (submit_block_bytes X Y 0 N E blob) =
        length (replace_bytes (replace_bytes blob (unat X) (le32 N)) (unat Y) (le32 E))"
    by simp
next
  fix j assume "j < length (submit_block_bytes X Y 0 N E blob)"
  then have j: "j < length blob" by simp
  have len: "0 + length blob + 4 \<le> 2 ^ 64" using assms(4) by simp
  have "submit_block_bytes X Y 0 N E blob ! j = expected_byte (unat X) (unat Y) N E j (blob ! j)"
    using submit_block_bytes_nth[OF assms(1,2,3) len j, of N E] by (simp add: written_def)
  then show "submit_block_bytes X Y 0 N E blob ! j =
             replace_bytes (replace_bytes blob (unat X) (le32 N)) (unat Y) (le32 E) ! j"
    using spliced_nth[OF assms(3) j, of N E] by simp
qed

text \<open>
  Claim C5, as stated, fails.  With \<open>nonce_offset = 0\<close> the nonce is not spliced at all
  (the loop tests \<open>nonce_offset &&\<close> first), so bytes \<open>[0..4)\<close> of the blob stay; and with
  overlapping ranges (\<open>X = 1\<close>, \<open>Y = 3\<close>) the bytes after the nonce are the low bytes
  of the extra nonce, which is the blob with the two replacements in neither order.
\<close>

theorem submit_block_splice_counterexample:
  "hex_decode (submit_block_hex 0 6 0 0x11223344 0xAABBCCDD [0, 1, 2, 3, 4, 5, 6, 7, 8, 9, 10, 11])
     = Some [0, 1, 2, 3, 4, 5, 0xDD, 0xCC, 0xBB, 0xAA, 10, 11]
   \<and> hex_decode (submit_block_hex 0 6 0 0x11223344 0xAABBCCDD [0, 1, 2, 3, 4, 5, 6, 7, 8, 9, 10, 11])
     \<noteq> Some (replace_bytes (replace_bytes [0, 1, 2, 3, 4, 5, 6, 7, 8, 9, 10, 11] 0 (le32 0x11223344))
               6 (le32 0xAABBCCDD))
   \<and> hex_decode (submit_block_hex 1 3 0 0x11223344 0xAABBCCDD [0, 1, 2, 3, 4, 5, 6, 7, 8, 9, 10, 11])
     = Some [0, 0x44, 0x33, 0x22, 0x11, 0xDD, 0xCC, 7, 8, 9, 10, 11]
   \<and> hex_decode (submit_block_hex 1 3 0 0x11223344 0xAABBCCDD [0, 1, 2, 3, 4, 5, 6, 7, 8, 9, 10, 11])
     \<noteq> Some (replace_bytes (replace_bytes [0, 1, 2, 3, 4, 5, 6, 7, 8, 9, 10, 11] 1 (le32 0x11223344))
               3 (le32 0xAABBCCDD))
   \<and> hex_decode (submit_block_hex 1 3 0 0x11223344 0xAABBCCDD [0, 1, 2, 3, 4, 5, 6, 7, 8, 9, 10, 11])
     \<noteq> Some (replace_bytes (replace_bytes [0, 1, 2, 3, 4, 5, 6, 7, 8, 9, 10, 11] 3 (le32 0xAABBCCDD))
               1 (le32 0x11223344))"
  by (simp add: hex_decode_printf_02x hex_decode_printf_02x[of _ "[]", simplified] le32_def)

text \<open>
  Claim C5, amended.  For an internal submission whose template gives a non-empty blob
  (shorter than \<open>2^64 - 4\<close> bytes) with offsets \<open>X \<noteq> 0\<close> and \<open>Y \<noteq> 0\<close> whose 4-byte
  ranges do not overlap, the text between the fixed head and tail of the request that
  \<open>submit_block\<close> sends decodes to the blob with the bytes from \<open>X\<close> replaced by the
  little-endian nonce and the bytes from \<open>Y\<close> replaced by the little-endian extra
  nonce.  For an external submission (non-empty pending blob) it decodes to that blob.
\<close>

theorem submit_block_splice:
  "(sb_blob (m_submitBlockData st) = []
      \<and> get_block_template_blob e (sb_template_id (m_submitBlockData st)) = (blob, X, Y)
      \<and> blob \<noteq> [] \<and> length blob + 4 \<le> 2 ^ 64
      \<and> X \<noteq> 0 \<and> Y \<noteq> 0 \<and> (unat X + 4 \<le> unat Y \<or> unat Y + 4 \<le> unat X)
    \<longrightarrow> (\<exists>H. submit_block e st = do_call (JSONRPC_request (request_prefix @ H @ request_suffix)) st
            \<and> H = submit_block_hex X Y 0 (sb_nonce (m_submitBlockData st))
                    (sb_extra_nonce (m_submitBlockData st)) blob
            \<and> hex_decode H =
                Some (replace_bytes
                        (replace_bytes blob (unat X) (le32 (sb_nonce (m_submitBlockData st))))
                        (unat Y) (le32 (sb_extra_nonce (m_submitBlockData st))))))
   \<and> (sb_blob (m_submitBlockData st) \<noteq> []
    \<longrightarrow> (\<exists>H. submit_block e st = do_call (JSONRPC_request (request_prefix @ H @ request_suffix)) st
            \<and> hex_decode H = Some (sb_blob (m_submitBlockData st))))"
proof (intro conjI impI)
  assume a: "sb_blob (m_submitBlockData st) = []
      \<and> get_block_template_blob e (sb_template_id (m_submitBlockData st)) = (blob, X, Y)
      \<and> blob \<noteq> [] \<and> length blob + 4 \<le> 2 ^ 64
      \<and> X \<noteq> 0 \<and> Y \<noteq> 0 \<and> (unat X + 4 \<le> unat Y \<or> unat Y + 4 \<le> unat X)"
  let ?N = "sb_nonce (m_submitBlockData st)" and ?E = "sb_extra_nonce (m_submitBlockData st)"
  have run: "submit_block e st =
      do_call (JSONRPC_request (request_prefix @ submit_block_hex X Y 0 ?N ?E blob @ request_suffix)) st"
    using a by (simp add: submit_block_def Let_def submit_block_request_def)
  have dec: "hex_decode (submit_block_hex X Y 0 ?N ?E blob) =
        Some (replace_bytes (replace_bytes blob (unat X) (le32 ?N)) (unat Y) (le32 ?E))"
    using a submit_block_bytes_spliced[of X Y blob ?N ?E]
    by (simp add: hex_decode_submit_block_hex)
  show "\<exists>H. submit_block e st = do_call (JSONRPC_request (request_prefix @ H @ request_suffix)) st
            \<and> H = submit_block_hex X Y 0 ?N ?E blob
            \<and> hex_decode H = Some (replace_bytes (replace_bytes blob (unat X) (le32 ?N)) (unat Y) (le32 ?E))"
    using run dec by blast
next
  assume b: "sb_blob (m_submitBlockData st) \<noteq> []"
  let ?d = "m_submitBlockData st"
  have run: "submit_block e st =
      do_call (JSONRPC_request (request_prefix
         @ submit_block_hex 0 0 0 (sb_nonce ?d) (sb_extra_nonce ?d) (sb_blob ?d) @ request_suffix)) st"
    using b by (simp add: submit_block_def Let_def submit_block_request_def)
  have dec: "hex_decode (submit_block_hex 0 0 0 (sb_nonce ?d) (sb_extra_nonce ?d) (sb_blob ?d))
        = Some (sb_blob ?d)"
    by (simp add: hex_decode_submit_block_hex external_bytes)
  show "\<exists>H. submit_block e st = do_call (JSONRPC_request (request_prefix @ H @ request_suffix)) st
            \<and> hex_decode H = Some (sb_blob (m_submitBlockData st))"
    using run dec by blast
qed


theorem submit_block_splice_witness:
  "submit_block example_env
      ((p2pool_init True None)\<lparr> m_submitBlockData :=
          \<lparr> sb_template_id = 7, sb_nonce = 0x11223344, sb_extra_nonce = 0xAABBCCDD, sb_blob = [] \<rparr> \<rparr>)
     = do_call (JSONRPC_request (request_prefix @ ''004433221105ddccbbaa0a0b'' @ request_suffix))
         ((p2pool_init True None)\<lparr> m_submitBlockData :=
          \<lparr> sb_template_id = 7, sb_nonce = 0x11223344, sb_extra_nonce = 0xAABBCCDD, sb_blob = [] \<rparr> \<rparr>)
   \<and> hex_decode ''004433221105ddccbbaa0a0b''
     = Some [0, 0x44, 0x33, 0x22, 0x11, 5, 0xDD, 0xCC, 0xBB, 0xAA, 10, 11]
   \<and> submit_block example_env (submit_block_async_blob [1, 2, 254] (p2pool_init True None))
     = do_call (JSONRPC_request (request_prefix @ ''0102fe'' @ request_suffix))
         (submit_block_async_blob [1, 2, 254] (p2pool_init True None))
   \<and> hex_decode ''0102fe'' = Some [1, 2, 254]"
proof -
  let ?I = "(p2pool_init True None)\<lparr> m_submitBlockData :=
          \<lparr> sb_template_id = 7, sb_nonce = 0x11223344, sb_extra_nonce = 0xAABBCCDD, sb_blob = [] \<rparr> \<rparr>"
  let ?X = "submit_block_async_blob [1, 2, 254] (p2pool_init True None)"
  let ?blob = "[0, 1, 2, 3, 4, 5, 6, 7, 8, 9, 10, 11] :: 8 word list"
  have h1: "sb_blob (m_submitBlockData ?I) = []
      \<and> get_block_template_blob example_env (sb_template_id (m_submitBlockData ?I)) = (?blob, 1, 6)
      \<and> ?blob \<noteq> [] \<and> length ?blob + 4 \<le> 2 ^ 64
      \<and> (1 :: 64 word) \<noteq> 0 \<and> (6 :: 64 word) \<noteq> 0
      \<and> (unat (1 :: 64 word) + 4 \<le> unat (6 :: 64 word) \<or> unat (6 :: 64 word) + 4 \<le> unat (1 :: 64 word))"
    by (simp add: example_env_def)
  have h2: "sb_blob (m_submitBlockData ?X) \<noteq> []"
    by (simp add: submit_block_async_blob_def do_call_def)
  have e1: "submit_block_hex 1 6 0 (sb_nonce (m_submitBlockData ?I))
              (sb_extra_nonce (m_submitBlockData ?I)) ?blob = ''004433221105ddccbbaa0a0b''"
    by (simp add: printf_02x_def hex_digit_def)
  have r1: "submit_block example_env ?I
     = do_call (JSONRPC_request (request_prefix @ ''004433221105ddccbbaa0a0b'' @ request_suffix)) ?I
     \<and> hex_decode ''004433221105ddccbbaa0a0b''
       = Some (replace_bytes (replace_bytes ?blob (unat (1 :: 64 word)) (le32 (sb_nonce (m_submitBlockData ?I))))
                 (unat (6 :: 64 word)) (le32 (sb_extra_nonce (m_submitBlockData ?I))))"
  proof -
    from submit_block_splice[of ?I example_env ?blob 1 6] h1
    obtain H where H: "submit_block example_env ?I
            = do_call (JSONRPC_request (request_prefix @ H @ request_suffix)) ?I"
        "H = submit_block_hex 1 6 0 (sb_nonce (m_submitBlockData ?I))
                    (sb_extra_nonce (m_submitBlockData ?I)) ?blob"
        "hex_decode H =
                Some (replace_bytes
                        (replace_bytes ?blob (unat (1 :: 64 word)) (le32 (sb_nonce (m_submitBlockData ?I))))
                        (unat (6 :: 64 word)) (le32 (sb_extra_nonce (m_submitBlockData ?I))))"
      by blast
    have "H = ''004433221105ddccbbaa0a0b''"
      using H(2) e1 by (rule trans)
    then show ?thesis using H(1,3) by blast
  qed
  have r2: "\<exists>H. submit_block example_env ?X
               = do_call (JSONRPC_request (request_prefix @ H @ request_suffix)) ?X
             \<and> hex_decode H = Some (sb_blob (m_submitBlockData ?X))"
    using submit_block_splice[of ?X example_env ?blob 1 6] h2 by blast
  have e2: "submit_block example_env ?X
     = do_call (JSONRPC_request (request_prefix @ ''0102fe'' @ request_suffix)) ?X"
    by (simp add: submit_block_def submit_block_async_blob_def do_call_def Let_def
        submit_block_request_def printf_02x_def hex_digit_def)
  have d2: "hex_decode ''0102fe'' = Some [1, 2, 254]"
    by (simp add: from_hex_def Let_def)
  have v: "replace_bytes (replace_bytes ?blob (unat (1 :: 64 word)) (le32 (sb_nonce (m_submitBlockData ?I))))
                 (unat (6 :: 64 word)) (le32 (sb_extra_nonce (m_submitBlockData ?I)))
           = [0, 0x44, 0x33, 0x22, 0x11, 5, 0xDD, 0xCC, 0xBB, 0xAA, 10, 11]"
    by (simp add: le32_def)
  show ?thesis
    using r1 r2 e2 d2 unfolding v by blast
qed

subsection \<open>The main-chain index\<close>








lemma hash_index_present:
  assumes "bh k \<noteq> None"
  shows "snd (hash_index bh k) = bh"
  using assms by (auto simp: hash_index_def split: option.splits)


































lemma word_pred_neq: "(h :: 64 word) - 1 \<noteq> h"
  by simp






end
